theory Spec2Isabelle
  imports Main "HOL-Library.Sublist"
begin

section \<open>Text primitives of the two scripts\<close>

text \<open>
  Python strings are modelled as \<^typ>\<open>string\<close>: a \<^typ>\<open>char\<close> stands for a code point
  below 256.  On that range the character classes used by the scripts are the
  ones written out here: \<^verbatim>\<open>\d\<close> matches the ten ASCII digits, \<^verbatim>\<open>\s\<close> and
  \<^verbatim>\<open>str.rstrip()\<close> treat the same code points as white space.
\<close>

definition TAB :: char where
  "TAB = CHR 0x09"

definition NL :: char where
  "NL = CHR 0x0A"

definition is_digit :: "char \<Rightarrow> bool" where
  "is_digit c = (c \<in> set ''0123456789'')"

definition is_space :: "char \<Rightarrow> bool" where
  "is_space c = (c \<in> set [CHR 0x09, CHR 0x0A, CHR 0x0B, CHR 0x0C, CHR 0x0D,
                           CHR 0x1C, CHR 0x1D, CHR 0x1E, CHR 0x1F, CHR 0x20,
                           CHR 0x85, CHR 0xA0])"

text \<open>\<^verbatim>\<open>needle in s\<close> for strings.\<close>

fun str_contains :: "string \<Rightarrow> string \<Rightarrow> bool" where
  "str_contains needle [] = (needle = [])"
| "str_contains needle (c # cs) = (prefix needle (c # cs) \<or> str_contains needle cs)"

text \<open>\<^verbatim>\<open>s.split(sep)\<close> for a one-character separator, and \<^verbatim>\<open>sep.join(parts)\<close>.\<close>

fun split_on :: "char \<Rightarrow> string \<Rightarrow> string list" where
  "split_on sep [] = [[]]"
| "split_on sep (c # cs) =
     (if c = sep then [] # split_on sep cs
      else (case split_on sep cs of
              [] \<Rightarrow> [[c]]
            | part # parts \<Rightarrow> (c # part) # parts))"

fun join_with :: "string \<Rightarrow> string list \<Rightarrow> string" where
  "join_with sep [] = []"
| "join_with sep [p] = p"
| "join_with sep (p # q # ps) = p @ sep @ join_with sep (q # ps)"

text \<open>\<^verbatim>\<open>s.rstrip()\<close> with no argument.\<close>

definition rstrip :: "string \<Rightarrow> string" where
  "rstrip s = rev (dropWhile is_space (rev s))"

section \<open>Dates and their formats\<close>

record datetime =
  year :: nat
  month :: nat
  day :: nat
  hour :: nat
  minute :: nat
  second :: nat

definition digit_char :: "nat \<Rightarrow> char" where
  "digit_char n = ''0123456789'' ! (n mod 10)"

definition pad2 :: "nat \<Rightarrow> string" where
  "pad2 n = [digit_char (n div 10), digit_char n]"

definition pad4 :: "nat \<Rightarrow> string" where
  "pad4 n = [digit_char (n div 1000), digit_char (n div 100), digit_char (n div 10), digit_char n]"

text \<open>\<^verbatim>\<open>strftime('%m/%d/%Y')\<close>, with the year written on four digits.\<close>

definition strftime_mdY :: "datetime \<Rightarrow> string" where
  "strftime_mdY d = pad2 (month d) @ ''/'' @ pad2 (day d) @ ''/'' @ pad4 (year d)"

section \<open>The line patcher of \<^verbatim>\<open>update_text_file\<close>\<close>

text \<open>
  \<^verbatim>\<open>\d{2}/\d{2}/\d{4}\<close> matched at the head of a string: the result is what follows
  the ten matched characters.
\<close>

definition match_date :: "string \<Rightarrow> string option" where
  "match_date s =
     (if 10 \<le> length s
         \<and> is_digit (s ! 0) \<and> is_digit (s ! 1) \<and> s ! 2 = CHR ''/''
         \<and> is_digit (s ! 3) \<and> is_digit (s ! 4) \<and> s ! 5 = CHR ''/''
         \<and> is_digit (s ! 6) \<and> is_digit (s ! 7) \<and> is_digit (s ! 8) \<and> is_digit (s ! 9)
      then Some (drop 10 s) else None)"

text \<open>\<^verbatim>\<open>re.search(r'\d{2}/\d{2}/\d{4}', line)\<close> as a truth value.\<close>

fun re_search_date :: "string \<Rightarrow> bool" where
  "re_search_date [] = False"
| "re_search_date (c # cs) = (match_date (c # cs) \<noteq> None \<or> re_search_date cs)"

text \<open>
  \<^verbatim>\<open>(\d{2}/\d{2}/\d{4})\s+CMS\<close> matched at the head of a string.  The greedy
  \<^verbatim>\<open>\s+\<close> takes the whole run of white space: giving a character back never
  helps, since the next pattern character \<^verbatim>\<open>C\<close> is not white space.
\<close>

definition match_date_cms :: "string \<Rightarrow> string option" where
  "match_date_cms s =
     (case match_date s of
        None \<Rightarrow> None
      | Some r \<Rightarrow>
          if takeWhile is_space r \<noteq> [] \<and> prefix ''CMS'' (dropWhile is_space r)
          then Some (drop 3 (dropWhile is_space r)) else None)"

text \<open>
  \<^verbatim>\<open>re.sub(r'(\d{2}/\d{2}/\d{4})\s+CMS', repl, line)\<close>: the matches are taken from
  left to right without overlap, each replaced by \<open>repl\<close>.
\<close>

function re_sub_date_cms :: "string \<Rightarrow> string \<Rightarrow> string" where
  "re_sub_date_cms repl [] = []"
| "re_sub_date_cms repl (c # cs) =
     (case match_date_cms (c # cs) of
        Some rest \<Rightarrow> repl @ re_sub_date_cms repl rest
      | None \<Rightarrow> c # re_sub_date_cms repl cs)"
  by pat_completeness auto

lemma match_date_length: "match_date s = Some r \<Longrightarrow> length r < length s"
  by (auto simp: match_date_def split: if_splits)

lemma match_date_cms_length: "match_date_cms s = Some r \<Longrightarrow> length r < length s"
proof -
  assume a: "match_date_cms s = Some r"
  then obtain r0 where r0: "match_date s = Some r0"
    and r: "r = drop 3 (dropWhile is_space r0)"
    by (auto simp: match_date_cms_def split: option.splits if_splits)
  have "length r \<le> length (dropWhile is_space r0)" using r by simp
  also have "\<dots> \<le> length r0" by (rule length_dropWhile_le)
  also have "\<dots> < length s" using r0 by (rule match_date_length)
  finally show ?thesis .
qed

termination re_sub_date_cms
  by (relation "measure (\<lambda>(repl, s). length s)") (auto dest: match_date_cms_length)

text \<open>The condition under which the loop rewrites a line.\<close>

definition qualifies :: "string \<Rightarrow> bool" where
  "qualifies line = (str_contains ''CMS'' line \<and> re_search_date line)"

text \<open>
  The loop of \<^verbatim>\<open>update_text_file\<close> over the lines, with its two accumulators
  \<^verbatim>\<open>updated_lines\<close> and \<^verbatim>\<open>updates_made\<close>.
\<close>

fun patch_loop :: "string \<Rightarrow> string list \<Rightarrow> string list \<Rightarrow> nat \<Rightarrow> string list \<times> nat" where
  "patch_loop new_date_str [] updated_lines updates_made = (updated_lines, updates_made)"
| "patch_loop new_date_str (line # lines) updated_lines updates_made =
     (if str_contains ''CMS'' line \<and> re_search_date line
      then patch_loop new_date_str lines
             (updated_lines @ [re_sub_date_cms (new_date_str @ [TAB, TAB] @ ''CMS'') line])
             (updates_made + 1)
      else patch_loop new_date_str lines (updated_lines @ [line]) updates_made)"

definition patch_lines :: "string \<Rightarrow> string \<Rightarrow> string list \<times> nat" where
  "patch_lines new_date_str content = patch_loop new_date_str (split_on NL content) [] 0"

text \<open>
  Two notions used to state what the substitution does: a text that is exactly one
  date, and a string in which no match of the substitution's pattern starts before
  position \<open>n\<close>.
\<close>

definition is_date_text :: "string \<Rightarrow> bool" where
  "is_date_text d = (match_date d = Some [])"

definition no_match_before :: "nat \<Rightarrow> string \<Rightarrow> bool" where
  "no_match_before n s = (\<forall>i<n. match_date_cms (drop i s) = None)"

section \<open>More text primitives\<close>

definition APOS :: char where
  "APOS = CHR 0x27"

text \<open>
  \<^verbatim>\<open>str.lower()\<close> on code points below 256: the ASCII capitals and the accented
  capitals \<open>0xC0\<close> to \<open>0xDE\<close> (without the multiplication sign \<open>0xD7\<close>) move up by 32.
\<close>

definition lower_char :: "char \<Rightarrow> char" where
  "lower_char c =
     (let n = (of_char c :: nat) in
      if (65 \<le> n \<and> n \<le> 90) \<or> (192 \<le> n \<and> n \<le> 222 \<and> n \<noteq> 215)
      then char_of (n + 32) else c)"

definition lower :: "string \<Rightarrow> string" where
  "lower s = map lower_char s"

text \<open>\<^verbatim>\<open>s.replace(old, new)\<close> for a non-empty \<open>old\<close>.\<close>

function str_replace :: "string \<Rightarrow> string \<Rightarrow> string \<Rightarrow> string" where
  "str_replace old new [] = []"
| "str_replace old new (c # cs) =
     (if old \<noteq> [] \<and> prefix old (c # cs)
      then new @ str_replace old new (drop (length old) (c # cs))
      else c # str_replace old new cs)"
  by pat_completeness auto
termination
  by (relation "measure (\<lambda>(old, new, s). length s)") auto

text \<open>
  \<^verbatim>\<open>urllib.parse.quote(s)\<close> with its default \<^verbatim>\<open>safe='/'\<close>: letters, digits and
  \<^verbatim>\<open>_.-~/\<close> are kept, every other byte of the UTF-8 encoding becomes \<^verbatim>\<open>%XX\<close>.
  A code point from 128 to 255 has a two-byte encoding.
\<close>

definition hex_digit :: "nat \<Rightarrow> char" where
  "hex_digit n = ''0123456789ABCDEF'' ! (n mod 16)"

definition percent_byte :: "nat \<Rightarrow> string" where
  "percent_byte b = [CHR ''%'', hex_digit (b div 16), hex_digit b]"

definition quote_safe :: "char \<Rightarrow> bool" where
  "quote_safe c =
     (c \<in> set (''ABCDEFGHIJKLMNOPQRSTUVWXYZ'' @ ''abcdefghijklmnopqrstuvwxyz''
               @ ''0123456789'' @ ''_.-~'' @ ''/''))"

definition quote_char :: "char \<Rightarrow> string" where
  "quote_char c =
     (let n = (of_char c :: nat) in
      if quote_safe c then [c]
      else if n < 128 then percent_byte n
      else percent_byte (192 + n div 64) @ percent_byte (128 + n mod 64))"

definition quote :: "string \<Rightarrow> string" where
  "quote s = concat (map quote_char s)"

text \<open>\<^verbatim>\<open>strftime('%Y-%m-%dT%H:%M:%SZ')\<close> and \<^verbatim>\<open>strftime('%Y%m%d_%H%M%S')\<close>.\<close>

definition strftime_iso :: "datetime \<Rightarrow> string" where
  "strftime_iso d =
     pad4 (year d) @ ''-'' @ pad2 (month d) @ ''-'' @ pad2 (day d) @ ''T''
     @ pad2 (hour d) @ '':'' @ pad2 (minute d) @ '':'' @ pad2 (second d) @ ''Z''"

definition strftime_stamp :: "datetime \<Rightarrow> string" where
  "strftime_stamp d =
     pad4 (year d) @ pad2 (month d) @ pad2 (day d) @ ''_''
     @ pad2 (hour d) @ pad2 (minute d) @ pad2 (second d)"

text \<open>
  \<^verbatim>\<open>datetime.strptime(s, '%Y-%m-%d')\<close>, \<open>None\<close> where Python raises \<^verbatim>\<open>ValueError\<close>.
  The library matches \<^verbatim>\<open>(\d\d\d\d)-(1[0-2]|0[1-9]|[1-9])-(3[01]|[12]\d|0[1-9]|[1-9]| [1-9])\<close>
  at the head of the string, refuses a string with characters left over, and then
  refuses a date that does not exist.
\<close>

definition digit_val :: "char \<Rightarrow> nat" where
  "digit_val c = of_char c - 48"

definition is_digit_in :: "string \<Rightarrow> char \<Rightarrow> bool" where
  "is_digit_in allowed c = (c \<in> set allowed)"

definition parse_month :: "string \<Rightarrow> (nat \<times> string) option" where
  "parse_month s =
     (case s of
        a # b # r \<Rightarrow>
          if a = CHR ''1'' \<and> is_digit_in ''012'' b then Some (10 + digit_val b, r)
          else if a = CHR ''0'' \<and> is_digit_in ''123456789'' b then Some (digit_val b, r)
          else if is_digit_in ''123456789'' a then Some (digit_val a, b # r)
          else None
      | [a] \<Rightarrow> if is_digit_in ''123456789'' a then Some (digit_val a, []) else None
      | [] \<Rightarrow> None)"

definition parse_day :: "string \<Rightarrow> (nat \<times> string) option" where
  "parse_day s =
     (case s of
        a # b # r \<Rightarrow>
          if a = CHR ''3'' \<and> is_digit_in ''01'' b then Some (30 + digit_val b, r)
          else if is_digit_in ''12'' a \<and> is_digit b then Some (10 * digit_val a + digit_val b, r)
          else if a = CHR ''0'' \<and> is_digit_in ''123456789'' b then Some (digit_val b, r)
          else if is_digit_in ''123456789'' a then Some (digit_val a, b # r)
          else if a = CHR '' '' \<and> is_digit_in ''123456789'' b then Some (digit_val b, r)
          else None
      | [a] \<Rightarrow> if is_digit_in ''123456789'' a then Some (digit_val a, []) else None
      | [] \<Rightarrow> None)"

definition is_leap :: "nat \<Rightarrow> bool" where
  "is_leap y = (y mod 4 = 0 \<and> (y mod 100 \<noteq> 0 \<or> y mod 400 = 0))"

definition days_in_month :: "nat \<Rightarrow> nat \<Rightarrow> nat" where
  "days_in_month y m =
     (if m = 2 then (if is_leap y then 29 else 28)
      else if m \<in> {4, 6, 9, 11} then 30 else 31)"

definition strptime_Ymd :: "string \<Rightarrow> datetime option" where
  "strptime_Ymd s =
     (if length s < 5 \<or> \<not> list_all is_digit (take 4 s) \<or> s ! 4 \<noteq> CHR ''-'' then None
      else
        let y = 1000 * digit_val (s ! 0) + 100 * digit_val (s ! 1)
                + 10 * digit_val (s ! 2) + digit_val (s ! 3)
        in case parse_month (drop 5 s) of
             None \<Rightarrow> None
           | Some (m, r) \<Rightarrow>
               (case r of
                  [] \<Rightarrow> None
                | c # r' \<Rightarrow>
                    if c \<noteq> CHR ''-'' then None
                    else (case parse_day r' of
                            None \<Rightarrow> None
                          | Some (d, rest) \<Rightarrow>
                              if rest \<noteq> [] \<or> y < 1 \<or> days_in_month y m < d then None
                              else Some \<lparr>year = y, month = m, day = d,
                                         hour = 0, minute = 0, second = 0\<rparr>)))"

section \<open>The document service, the local disk and the clock\<close>

text \<open>
  A request is its method, its URL and its body; headers are left out, and so are
  the messages the scripts print or log.  A body is the text before
  \<^verbatim>\<open>encode('utf-8')\<close>.
\<close>

datatype request =
    GET string
  | POST string "string option"
  | PUT string string

text \<open>
  The replies are read through the OData envelope \<^verbatim>\<open>d.results\<close>, a list of
  dictionaries.  A \<open>row\<close> holds the keys the scripts read; a text field is absent,
  \<^verbatim>\<open>null\<close> or a string.
\<close>

datatype jfield = Missing | Null | Str string

record row =
  ID :: "int option"
  Name :: jfield
  FileLeafRef :: jfield
  Title :: jfield
  Date_x0020_Added :: jfield
  Mon_x0020_Description :: jfield

text \<open>
  What \<^verbatim>\<open>response.json()\<close> gives: \<open>NotJson\<close> when the body is not JSON and the
  call raises, \<open>NoResults\<close> when the key \<^verbatim>\<open>d\<close> or the key \<^verbatim>\<open>results\<close> is absent.  A
  body that parses is taken to be a dictionary of the envelope's shape.
\<close>

datatype payload = NotJson | NoResults | Results "row list"

record response =
  status_code :: nat
  body_text :: string
  json :: payload

text \<open>
  An exception is the value \<open>Raised\<close>.  Of an exception \<open>e\<close> the handlers ask two
  things, \<^verbatim>\<open>hasattr(e, 'response')\<close> and then \<^verbatim>\<open>e.response.status_code\<close>, so an
  exception is modelled by what these find:
  \<^item> \<open>ResponseNone\<close>: the attribute is there and is \<^verbatim>\<open>None\<close>.  The library
    \<^verbatim>\<open>requests\<close> gives it to each \<^verbatim>\<open>RequestException\<close> raised without a reply: a
    connection error, a timeout, and (from version 2.27 on) the error of
    \<^verbatim>\<open>response.json()\<close> on a body that is not JSON.
  \<^item> \<open>ResponseSet\<close>: the attribute holds the reply, as in the \<^verbatim>\<open>HTTPError\<close> of
    \<^verbatim>\<open>raise_for_status()\<close>.
  \<^item> \<open>NoResponseAttr\<close>: any other exception (\<^verbatim>\<open>KeyError\<close>, \<^verbatim>\<open>AttributeError\<close>,
    \<^verbatim>\<open>OSError\<close>, a plain \<^verbatim>\<open>Exception\<close>).
\<close>

datatype exn = ResponseNone | ResponseSet | NoResponseAttr

datatype 'a result = Raised exn | Returned 'a

text \<open>A local path is the list of the components given to \<^verbatim>\<open>os.path.join\<close>.\<close>

type_synonym path = "string list"

record results =
  successful :: "(int \<times> string) list"
  failed :: "(int \<times> string) list"

datatype fs_op =
    MakeDirs path
  | WriteText path string
  | WriteResults path results

datatype event = Sent request | Local fs_op

text \<open>
  The world answers each request and each disk operation, and tells the time;
  its answers may depend on everything done so far, the log of events.  \<open>http\<close> is
  \<open>Raised ResponseNone\<close> for a transport error; \<open>disk\<close> is \<open>False\<close> when the
  operation raises.
\<close>

record world =
  http :: "event list \<Rightarrow> request \<Rightarrow> response result"
  disk :: "event list \<Rightarrow> fs_op \<Rightarrow> bool"
  now :: "event list \<Rightarrow> datetime"

text \<open>A request followed by \<^verbatim>\<open>response.raise_for_status()\<close>.\<close>

definition send :: "world \<Rightarrow> event list \<Rightarrow> request \<Rightarrow> response result \<times> event list" where
  "send w log r =
     ((case http w log r of
         Raised e \<Rightarrow> Raised e
       | Returned resp \<Rightarrow>
           if 400 \<le> status_code resp \<and> status_code resp < 600 then Raised ResponseSet
           else Returned resp),
      log @ [Sent r])"

text \<open>
  The handlers that end in
  \<^verbatim>\<open>if hasattr(e, 'response'): ... e.response.status_code ...; return sentinel\<close>.
  When \<^verbatim>\<open>e.response\<close> is \<^verbatim>\<open>None\<close> the handler itself raises \<^verbatim>\<open>AttributeError\<close>, which
  leaves the function; otherwise the sentinel is returned.  The handlers that only
  print \<^verbatim>\<open>str(e)\<close> return their sentinel for every exception.
\<close>

definition logged_handler :: "exn \<Rightarrow> 'a \<Rightarrow> 'a result" where
  "logged_handler e sentinel =
     (case e of
        ResponseNone \<Rightarrow> Raised NoResponseAttr
      | ResponseSet \<Rightarrow> Returned sentinel
      | NoResponseAttr \<Rightarrow> Returned sentinel)"

text \<open>Whether a call returned, as in \<^verbatim>\<open>try: ...; return True\<close> with \<^verbatim>\<open>except: return False\<close>.\<close>

definition returned :: "'a result \<Rightarrow> bool" where
  "returned r = (case r of Raised e \<Rightarrow> False | Returned x \<Rightarrow> True)"

definition local_op :: "world \<Rightarrow> event list \<Rightarrow> fs_op \<Rightarrow> bool \<times> event list" where
  "local_op w log op = (disk w log op, log @ [Local op])"

section \<open>\<^verbatim>\<open>SharePointPointUpdater\<close> (sharepoint\_date\_updater.py)\<close>

text \<open>The fields set by the constructor.\<close>

record site =
  base_url :: string
  site_name :: string
  library_name :: string

record updater = site +
  backup_dir :: string
  output_dir :: string

text \<open>An entry of \<^verbatim>\<open>point_list\<close>, with its keys \<^verbatim>\<open>id\<close>, \<^verbatim>\<open>date_added\<close>, \<^verbatim>\<open>point_number\<close>.\<close>

record point =
  pt_id :: int
  pt_date_added :: "string option"
  pt_point_number :: string

definition date_added_field :: string where
  "date_added_field = ''Date_x0020_Added''"

definition date_filter :: "datetime \<Rightarrow> datetime option \<Rightarrow> string" where
  "date_filter start_date end_date =
     (case end_date of
        Some e \<Rightarrow>
          date_added_field @ '' ge datetime'' @ [APOS] @ strftime_iso start_date @ [APOS]
          @ '' and '' @ date_added_field @ '' le datetime'' @ [APOS] @ strftime_iso e @ [APOS]
      | None \<Rightarrow>
          date_added_field @ '' ge datetime'' @ [APOS] @ strftime_iso start_date @ [APOS])"

definition points_api_url :: "updater \<Rightarrow> string \<Rightarrow> string" where
  "points_api_url u encoded_filter =
     base_url u @ ''/sites/'' @ site_name u @ ''/_api/web/lists/getbytitle('' @ [APOS]
     @ library_name u @ [APOS] @ '')/items''
     @ ''?$select=ID,'' @ date_added_field @ '',FileLeafRef,Title&$filter=''
     @ encoded_filter @ ''&$top=5000''"

text \<open>
  The loop building \<^verbatim>\<open>point_list\<close>.  \<^verbatim>\<open>None.startswith\<close> (a \<^verbatim>\<open>null\<close> title
  reached through \<^verbatim>\<open>or\<close>) and a missing \<^verbatim>\<open>ID\<close> raise.
\<close>

definition item_point_number :: "row \<Rightarrow> string result" where
  "item_point_number item =
     (let fallback = (case Title item of
                        Missing \<Rightarrow> Returned []
                      | Null \<Rightarrow> Raised NoResponseAttr
                      | Str t \<Rightarrow> Returned t);
          chosen = (case FileLeafRef item of
                      Str f \<Rightarrow> if f \<noteq> [] then Returned f else fallback
                    | _ \<Rightarrow> fallback)
      in case chosen of
           Raised e \<Rightarrow> Raised e
         | Returned p \<Rightarrow> Returned (if prefix ''Point '' p then drop 6 p else p))"

fun build_point_list :: "row list \<Rightarrow> point list \<Rightarrow> point list result" where
  "build_point_list [] point_list = Returned point_list"
| "build_point_list (item # items) point_list =
     (case item_point_number item of
        Raised e \<Rightarrow> Raised e
      | Returned pn \<Rightarrow>
          (case ID item of
             None \<Rightarrow> Raised NoResponseAttr
           | Some i \<Rightarrow>
               build_point_list items
                 (point_list @ [\<lparr>pt_id = i,
                                 pt_date_added = (case Date_x0020_Added item of
                                                    Str s \<Rightarrow> Some s | _ \<Rightarrow> None),
                                 pt_point_number = pn\<rparr>])))"

text \<open>
  \<^verbatim>\<open>get_points_by_date_range\<close>: the body of its \<^verbatim>\<open>try\<close>, then its handler, which
  is a logging one with the sentinel \<^verbatim>\<open>[]\<close>.
\<close>

definition get_points_by_date_range ::
  "world \<Rightarrow> event list \<Rightarrow> updater \<Rightarrow> datetime \<Rightarrow> datetime option
     \<Rightarrow> point list result \<times> event list" where
  "get_points_by_date_range w log u start_date end_date =
     (let api_url = points_api_url u (quote (date_filter start_date end_date));
          (r, log1) = send w log (GET api_url);
          body = (case r of
                    Raised e \<Rightarrow> Raised e
                  | Returned resp \<Rightarrow>
                      (case json resp of
                         NotJson \<Rightarrow> Raised ResponseNone
                       | NoResults \<Rightarrow> Returned []
                       | Results points \<Rightarrow> build_point_list points []))
      in ((case body of
             Raised e \<Rightarrow> logged_handler e []
           | Returned point_list \<Rightarrow> Returned point_list),
          log1))"

definition folder_files_url :: "updater \<Rightarrow> string \<Rightarrow> string" where
  "folder_files_url u point_number =
     base_url u @ ''/sites/'' @ site_name u
     @ ''/_api/web/GetFolderByServerRelativeUrl('' @ [APOS]
     @ ''/sites/'' @ site_name u @ ''/'' @ library_name u @ ''/'' @ point_number
     @ [APOS] @ '')/Files''"

text \<open>
  The loop of \<^verbatim>\<open>get_text_file_name\<close>: \<^verbatim>\<open>file.get('Name', '')\<close> is the empty
  string for a missing name; \<^verbatim>\<open>None.lower()\<close> raises.
\<close>

fun first_txt_name :: "row list \<Rightarrow> string option result" where
  "first_txt_name [] = Returned None"
| "first_txt_name (file # files) =
     (case Name file of
        Missing \<Rightarrow> first_txt_name files
      | Null \<Rightarrow> Raised NoResponseAttr
      | Str file_name \<Rightarrow>
          if suffix ''.txt'' (lower file_name) then Returned (Some file_name)
          else first_txt_name files)"

definition get_text_file_name ::
  "world \<Rightarrow> event list \<Rightarrow> updater \<Rightarrow> string \<Rightarrow> string option \<times> event list" where
  "get_text_file_name w log u point_number =
     (let (r, log1) = send w log (GET (folder_files_url u point_number))
      in case r of
           Raised e \<Rightarrow> (None, log1)
         | Returned resp \<Rightarrow>
             (case json resp of
                NotJson \<Rightarrow> (None, log1)
              | NoResults \<Rightarrow> (None, log1)
              | Results files \<Rightarrow>
                  (case first_txt_name files of
                     Raised e \<Rightarrow> (None, log1)
                   | Returned found \<Rightarrow> (found, log1))))"

definition file_value_url :: "updater \<Rightarrow> string \<Rightarrow> string \<Rightarrow> string" where
  "file_value_url u point_number file_name =
     base_url u @ ''/sites/'' @ site_name u
     @ ''/_api/web/GetFileByServerRelativeUrl('' @ [APOS]
     @ ''/sites/'' @ site_name u @ ''/'' @ library_name u @ ''/'' @ point_number
     @ ''/'' @ file_name @ [APOS] @ '')/$value''"

definition get_text_file_content ::
  "world \<Rightarrow> event list \<Rightarrow> updater \<Rightarrow> string \<Rightarrow> string \<Rightarrow> string option \<times> event list" where
  "get_text_file_content w log u point_number file_name =
     (let (r, log1) = send w log (GET (file_value_url u point_number file_name))
      in case r of
           Raised e \<Rightarrow> (None, log1)
         | Returned resp \<Rightarrow> (Some (body_text resp), log1))"

definition download_original_file ::
  "world \<Rightarrow> event list \<Rightarrow> updater \<Rightarrow> string \<Rightarrow> string \<Rightarrow> bool \<times> event list" where
  "download_original_file w log u point_number file_name =
     (let (content, log1) = get_text_file_content w log u point_number file_name
      in case content of
           None \<Rightarrow> (False, log1)
         | Some c \<Rightarrow>
             let point_backup_dir = [backup_dir u, ''Point_'' @ point_number];
                 (made, log2) = local_op w log1 (MakeDirs point_backup_dir)
             in if \<not> made then (False, log2)
                else
                  let timestamp = strftime_stamp (now w log2);
                      backup_file_name =
                        ''original_'' @ str_replace ''.txt'' [] file_name @ ''_''
                        @ timestamp @ ''.txt'';
                      backup_path = point_backup_dir @ [backup_file_name];
                      (written, log3) = local_op w log2 (WriteText backup_path c)
                  in if \<not> written then (False, log3) else (True, log3))"

definition move_url :: "updater \<Rightarrow> string \<Rightarrow> string \<Rightarrow> string \<Rightarrow> string" where
  "move_url u point_number old_file_name new_file_name =
     (let old_file_url = ''/sites/'' @ site_name u @ ''/'' @ library_name u @ ''/''
                         @ point_number @ ''/'' @ old_file_name;
          new_file_url = ''/sites/'' @ site_name u @ ''/'' @ library_name u @ ''/''
                         @ point_number @ ''/'' @ new_file_name
      in base_url u @ ''/sites/'' @ site_name u
         @ ''/_api/web/GetFileByServerRelativeUrl('' @ [APOS] @ old_file_url @ [APOS]
         @ '')/MoveTo(newUrl='' @ [APOS] @ new_file_url @ [APOS] @ '',flags=1)'')"

definition rename_sharepoint_file ::
  "world \<Rightarrow> event list \<Rightarrow> updater \<Rightarrow> string \<Rightarrow> string \<Rightarrow> string \<Rightarrow> bool \<times> event list" where
  "rename_sharepoint_file w log u point_number old_file_name new_file_name =
     (let (r, log1) = send w log (POST (move_url u point_number old_file_name new_file_name) None)
      in case r of
           Raised e \<Rightarrow> (False, log1)
         | Returned resp \<Rightarrow> (True, log1))"

text \<open>
  The \<^verbatim>\<open>new_date\<close> argument: a string, a \<^verbatim>\<open>datetime\<close>, or \<^verbatim>\<open>None\<close> (a point
  whose date field is absent), on which \<^verbatim>\<open>strftime\<close> raises.
\<close>

datatype date_arg = NoDate | IsoStr string | DateTime datetime

definition to_datetime :: "date_arg \<Rightarrow> datetime option" where
  "to_datetime new_date =
     (case new_date of
        NoDate \<Rightarrow> None
      | IsoStr s \<Rightarrow> strptime_Ymd (takeWhile (\<lambda>c. c \<noteq> CHR ''T'') s)
      | DateTime d \<Rightarrow> Some d)"

definition desired_file_name :: "string \<Rightarrow> string" where
  "desired_file_name point_number = ''Point '' @ point_number @ ''.txt''"

definition update_text_file ::
  "world \<Rightarrow> event list \<Rightarrow> updater \<Rightarrow> string \<Rightarrow> string \<Rightarrow> date_arg \<Rightarrow> bool \<times> event list" where
  "update_text_file w log u point_number file_name new_date =
     (let (backed_up, log1) = download_original_file w log u point_number file_name
      in if \<not> backed_up then (False, log1)
         else
           let (fetched, log2) = get_text_file_content w log1 u point_number file_name
           in case fetched of
                None \<Rightarrow> (False, log2)
              | Some content \<Rightarrow>
                  let rename_needed =
                        (lower file_name \<noteq> lower (desired_file_name point_number))
                  in case to_datetime new_date of
                       None \<Rightarrow> (False, log2)
                     | Some d \<Rightarrow>
                         let new_date_str = strftime_mdY d;
                             (updated_lines, updates_made) =
                               patch_loop new_date_str (split_on NL content) [] 0
                         in if updates_made = 0 then (False, log2)
                            else
                              let updated_content = join_with [NL] updated_lines;
                                  (file_name', log3) =
                                    (if rename_needed
                                     then (desired_file_name point_number,
                                           snd (rename_sharepoint_file w log2 u point_number
                                                  file_name (desired_file_name point_number)))
                                     else (file_name, log2));
                                  (r, log4) =
                                    send w log3
                                      (PUT (file_value_url u point_number file_name')
                                           updated_content)
                              in case r of
                                   Raised e \<Rightarrow> (False, log4)
                                 | Returned resp \<Rightarrow> (True, log4))"

definition process_single_point ::
  "world \<Rightarrow> event list \<Rightarrow> updater \<Rightarrow> int \<Rightarrow> string \<Rightarrow> string option \<Rightarrow> bool \<times> event list" where
  "process_single_point w log u pid point_number date_added_value =
     (let (found, log1) = get_text_file_name w log u point_number
      in case found of
           None \<Rightarrow> (False, log1)
         | Some file_name \<Rightarrow>
             if file_name = [] then (False, log1)
             else update_text_file w log1 u point_number file_name
                    (case date_added_value of None \<Rightarrow> NoDate | Some s \<Rightarrow> IsoStr s))"

text \<open>\<^verbatim>\<open>points[:n]\<close>: a negative \<open>n\<close> counts from the end.\<close>

definition slice_to :: "int \<Rightarrow> 'a list \<Rightarrow> 'a list" where
  "slice_to n xs = (if 0 \<le> n then take (nat n) xs else take (length xs - nat (- n)) xs)"

text \<open>
  The loop of \<^verbatim>\<open>process_multiple_points\<close>.  \<^verbatim>\<open>save_results\<close> is outside any
  \<^verbatim>\<open>try\<close>: when the write raises, so does the loop; and so does an exception that
  leaves \<^verbatim>\<open>get_points_by_date_range\<close>.
\<close>

definition results_path :: "updater \<Rightarrow> path" where
  "results_path u = [output_dir u, ''processing_results.json'']"

fun process_points ::
  "world \<Rightarrow> event list \<Rightarrow> updater \<Rightarrow> point list \<Rightarrow> results \<Rightarrow> results result \<times> event list" where
  "process_points w log u [] res = (Returned res, log)"
| "process_points w log u (p # ps) res =
     (let (ok, log1) = process_single_point w log u
                         (pt_id p) (pt_point_number p) (pt_date_added p);
          res1 = (if ok
                  then res\<lparr>successful := successful res @ [(pt_id p, pt_point_number p)]\<rparr>
                  else res\<lparr>failed := failed res @ [(pt_id p, pt_point_number p)]\<rparr>);
          (saved, log2) = local_op w log1 (WriteResults (results_path u) res1)
      in if \<not> saved then (Raised NoResponseAttr, log2)
         else process_points w log2 u ps res1)"

definition process_multiple_points ::
  "world \<Rightarrow> event list \<Rightarrow> updater \<Rightarrow> datetime \<Rightarrow> datetime option \<Rightarrow> int option
     \<Rightarrow> results result \<times> event list" where
  "process_multiple_points w log u start_date end_date max_points =
     (let (queried, log1) = get_points_by_date_range w log u start_date end_date
      in case queried of
           Raised e \<Rightarrow> (Raised e, log1)
         | Returned points \<Rightarrow>
             if points = [] then (Returned \<lparr>successful = [], failed = []\<rparr>, log1)
             else
               let limited = (case max_points of
                                None \<Rightarrow> points
                              | Some n \<Rightarrow> if n \<noteq> 0 then slice_to n points else points)
               in process_points w log1 u limited \<lparr>successful = [], failed = []\<rparr>)"

section \<open>\<^verbatim>\<open>SharePointVRSUpdater\<close> (point\_history\_updater.py)\<close>

record VRSObservation =
  document_num :: string
  work_order :: string
  control_used :: string
  obs_point_number :: string
  township_range :: string
  obs_section :: string
  date_observed :: string
  monument_type :: "string option"

record vrs_updater = site +
  monument_permit :: "string option"

definition monument_query_url :: "vrs_updater \<Rightarrow> string \<Rightarrow> string" where
  "monument_query_url v point_number =
     (let list_url = base_url v @ ''/sites/'' @ site_name v
                     @ ''/_api/web/lists/getbytitle('' @ [APOS] @ library_name v @ [APOS]
                     @ '')/items'';
          filter_query = ''?$filter=Title eq '' @ [APOS] @ point_number @ [APOS]
                         @ ''&$select=Mon_x0020_Description''
      in list_url @ filter_query)"

text \<open>
  \<^verbatim>\<open>get_monument_type\<close>: the body of its \<^verbatim>\<open>try\<close>, where
  \<^verbatim>\<open>data['d']['results']\<close> raises \<^verbatim>\<open>KeyError\<close> on a missing key, then its logging
  handler with the sentinel \<^verbatim>\<open>None\<close>.
\<close>

definition get_monument_type ::
  "world \<Rightarrow> event list \<Rightarrow> vrs_updater \<Rightarrow> string \<Rightarrow> string option result \<times> event list" where
  "get_monument_type w log v point_number =
     (let (r, log1) = send w log (GET (monument_query_url v point_number));
          body = (case r of
                    Raised e \<Rightarrow> Raised e
                  | Returned resp \<Rightarrow>
                      (case json resp of
                         NotJson \<Rightarrow> Raised ResponseNone
                       | NoResults \<Rightarrow> Raised NoResponseAttr
                       | Results rows \<Rightarrow>
                           (case rows of
                              [] \<Rightarrow> Returned None
                            | first # others \<Rightarrow>
                                (case Mon_x0020_Description first of
                                   Str description \<Rightarrow>
                                     if description \<noteq> [] then Returned (Some description)
                                     else Returned None
                                 | _ \<Rightarrow> Returned None))))
      in ((case body of
             Raised e \<Rightarrow> logged_handler e None
           | Returned found \<Rightarrow> Returned found),
          log1))"

text \<open>The local \<^verbatim>\<open>new_entry\<close> of \<^verbatim>\<open>_create_point_history_content\<close>.\<close>

definition new_entry ::
  "vrs_updater \<Rightarrow> datetime \<Rightarrow> VRSObservation \<Rightarrow> string \<Rightarrow> string \<Rightarrow> string" where
  "new_entry v today obs observer initials =
     (let current_date = strftime_mdY today;
          permit_text = (case monument_permit v of
                           Some permit \<Rightarrow> if permit \<noteq> [] then permit @ '' '' else []
                         | None \<Rightarrow> []);
          location_text = ''Section '' @ obs_section obs @ '', '' @ township_range obs;
          monument_type_text = (case monument_type obs of
                                  Some m \<Rightarrow> if m \<noteq> [] then '' ('' @ m @ '')'' else []
                                | None \<Rightarrow> [])
      in [NL, NL] @ current_date @ [TAB] @ initials @ [TAB] @ ''This monument''
         @ monument_type_text @ '' was observed with VRS ('' @ document_num obs
         @ '') using '' @ control_used obs @ '' and Geoid18''
         @ [NL, TAB, TAB, TAB] @ ''as part of WO '' @ work_order obs
         @ ''. The purpose of this work order was to facilitate '' @ permit_text
         @ [NL, TAB, TAB, TAB] @ location_text @ ''. Monument observed by '' @ observer
         @ '' on '' @ date_observed obs @ ''.'' @ [NL, NL])"

text \<open>
  \<^verbatim>\<open>_create_point_history_content\<close>; \<open>today\<close> is the value of \<^verbatim>\<open>datetime.now()\<close>.
  An existing content that is \<^verbatim>\<open>None\<close> or the empty string is false in Python.
\<close>

definition create_point_history_content ::
  "vrs_updater \<Rightarrow> datetime \<Rightarrow> VRSObservation \<Rightarrow> string \<Rightarrow> string \<Rightarrow> string option \<Rightarrow> string" where
  "create_point_history_content v today obs observer initials existing_content =
     (let entry = new_entry v today obs observer initials;
          template = [NL] @ ''    POINT HISTORY FILE: for point '' @ obs_point_number obs
                     @ [NL, NL] @ ''(mm/dd/yyyy) '' @ [TAB] @ ''(initials)'' @ [TAB, TAB]
                     @ ''ACTION/REMARKS'' @ [NL] @ replicate 89 (CHR ''-'') @ [NL] @ entry
      in case existing_content of
           Some existing \<Rightarrow> if existing \<noteq> [] then rstrip existing @ entry else template
         | None \<Rightarrow> template)"

definition quoted_folder_path :: "vrs_updater \<Rightarrow> string \<Rightarrow> string" where
  "quoted_folder_path v point_number =
     quote (''/sites/'' @ site_name v @ ''/'' @ library_name v @ ''/'' @ point_number)"

definition quoted_folder_url :: "vrs_updater \<Rightarrow> string \<Rightarrow> string" where
  "quoted_folder_url v point_number =
     base_url v @ ''/sites/'' @ site_name v
     @ ''/_api/web/GetFolderByServerRelativeUrl('' @ [APOS]
     @ quoted_folder_path v point_number @ [APOS] @ '')/Files''"

definition quoted_file_url :: "vrs_updater \<Rightarrow> string \<Rightarrow> string \<Rightarrow> string" where
  "quoted_file_url v point_number file_name =
     (let file_path = quote (''/sites/'' @ site_name v @ ''/'' @ library_name v @ ''/''
                             @ point_number @ ''/'' @ file_name)
      in base_url v @ ''/sites/'' @ site_name v
         @ ''/_api/web/GetFileByServerRelativeUrl('' @ [APOS] @ file_path @ [APOS]
         @ '')/$value'')"

text \<open>
  \<^verbatim>\<open>next((f for f in files if f['Name'].lower().endswith('.txt')), None)\<close>:
  \<^verbatim>\<open>f['Name']\<close> raises on a missing key, \<^verbatim>\<open>None.lower()\<close> raises.
\<close>

fun next_txt_file :: "row list \<Rightarrow> string option result" where
  "next_txt_file [] = Returned None"
| "next_txt_file (f # files) =
     (case Name f of
        Missing \<Rightarrow> Raised NoResponseAttr
      | Null \<Rightarrow> Raised NoResponseAttr
      | Str file_name \<Rightarrow>
          if suffix ''.txt'' (lower file_name) then Returned (Some file_name)
          else next_txt_file files)"

text \<open>
  \<^verbatim>\<open>get_existing_content\<close>: each exception of the \<^verbatim>\<open>try\<close> goes to the logging
  handler with the sentinel \<^verbatim>\<open>None\<close>.
\<close>

definition get_existing_content ::
  "world \<Rightarrow> event list \<Rightarrow> vrs_updater \<Rightarrow> string \<Rightarrow> string option result \<times> event list" where
  "get_existing_content w log v point_number =
     (let (r, log1) = send w log (GET (quoted_folder_url v point_number))
      in case r of
           Raised e \<Rightarrow> (logged_handler e None, log1)
         | Returned resp \<Rightarrow>
             (case json resp of
                NotJson \<Rightarrow> (logged_handler ResponseNone None, log1)
              | NoResults \<Rightarrow> (logged_handler NoResponseAttr None, log1)
              | Results files \<Rightarrow>
                  (case next_txt_file files of
                     Raised e \<Rightarrow> (logged_handler e None, log1)
                   | Returned None \<Rightarrow> (Returned None, log1)
                   | Returned (Some file_name) \<Rightarrow>
                       (let (r2, log2) = send w log1
                                           (GET (quoted_file_url v point_number file_name))
                        in case r2 of
                             Raised e \<Rightarrow> (logged_handler e None, log2)
                           | Returned resp2 \<Rightarrow> (Returned (Some (body_text resp2)), log2)))))"

definition create_url :: "vrs_updater \<Rightarrow> string \<Rightarrow> string" where
  "create_url v point_number =
     base_url v @ ''/sites/'' @ site_name v
     @ ''/_api/web/GetFolderByServerRelativeUrl('' @ [APOS]
     @ quoted_folder_path v point_number @ [APOS] @ '')/Files/Add(url='' @ [APOS]
     @ ''Point '' @ point_number @ ''.txt'' @ [APOS] @ '')''"

text \<open>
  \<^verbatim>\<open>update_point_history\<close>.  The observation's \<^verbatim>\<open>monument_type\<close> is assigned
  first; the final \<^verbatim>\<open>raise_for_status\<close> is the one of \<open>send\<close>.  Every exception of
  the \<^verbatim>\<open>try\<close>, among them one that left a callee and the
  \<^verbatim>\<open>Exception("Text file not found in folder")\<close>, goes to the logging handler with
  the sentinel \<^verbatim>\<open>False\<close>.
\<close>

definition update_point_history ::
  "world \<Rightarrow> event list \<Rightarrow> vrs_updater \<Rightarrow> VRSObservation \<Rightarrow> string \<Rightarrow> string
     \<Rightarrow> bool result \<times> event list" where
  "update_point_history w log v obs observer initials =
     (let (looked_up, log1) = get_monument_type w log v (obs_point_number obs)
      in case looked_up of
           Raised e \<Rightarrow> (logged_handler e False, log1)
         | Returned found_type \<Rightarrow>
             (let obs1 = obs\<lparr>monument_type := found_type\<rparr>;
                  (fetched, log2) = get_existing_content w log1 v (obs_point_number obs1)
              in case fetched of
                   Raised e \<Rightarrow> (logged_handler e False, log2)
                 | Returned existing_content \<Rightarrow>
                     (let content = create_point_history_content v (now w log2) obs1 observer
                                      initials existing_content
                      in if existing_content \<noteq> None \<and> existing_content \<noteq> Some []
                         then
                           (let (r, log3) =
                                  send w log2 (GET (quoted_folder_url v (obs_point_number obs1)))
                            in case r of
                                 Raised e \<Rightarrow> (logged_handler e False, log3)
                               | Returned resp \<Rightarrow>
                                   (case json resp of
                                      NotJson \<Rightarrow> (logged_handler ResponseNone False, log3)
                                    | NoResults \<Rightarrow> (logged_handler NoResponseAttr False, log3)
                                    | Results files \<Rightarrow>
                                        (case next_txt_file files of
                                           Raised e \<Rightarrow> (logged_handler e False, log3)
                                         | Returned None \<Rightarrow>
                                             (logged_handler NoResponseAttr False, log3)
                                         | Returned (Some file_name) \<Rightarrow>
                                             (let (r2, log4) =
                                                    send w log3
                                                      (PUT (quoted_file_url v
                                                              (obs_point_number obs1) file_name)
                                                           content)
                                              in case r2 of
                                                   Raised e \<Rightarrow> (logged_handler e False, log4)
                                                 | Returned resp2 \<Rightarrow> (Returned True, log4)))))
                         else
                           (let (r, log3) =
                                  send w log2
                                    (POST (create_url v (obs_point_number obs1)) (Some content))
                            in case r of
                                 Raised e \<Rightarrow> (logged_handler e False, log3)
                               | Returned resp \<Rightarrow> (Returned True, log3)))))"

section \<open>Events that change the remote library\<close>

fun remote_mutation :: "event \<Rightarrow> bool" where
  "remote_mutation (Sent (GET url)) = False"
| "remote_mutation (Sent (POST url body)) = True"
| "remote_mutation (Sent (PUT url body)) = True"
| "remote_mutation (Local op) = False"

section \<open>Example worlds\<close>

definition example_updater :: updater where
  "example_updater = \<lparr>base_url = ''https://sp'', site_name = ''Survey'', library_name = ''Points'',
                        backup_dir = ''backups'', output_dir = ''downloads''\<rparr>"

definition example_now :: datetime where
  "example_now = \<lparr>year = 2024, month = 6, day = 15, hour = 1, minute = 2, second = 3\<rparr>"

definition example_history :: string where
  "example_history = ''head'' @ [NL] @ ''06/01/2023'' @ [TAB, TAB] @ ''CMS'' @ [TAB] @ ''note''"

text \<open>
  Every request is answered with the example history; the backup file cannot be
  written.
\<close>

definition world_disk_full :: world where
  "world_disk_full =
     \<lparr>http = (\<lambda>log r. Returned \<lparr>status_code = 200, body_text = example_history, json = NotJson\<rparr>),
      disk = (\<lambda>log op. case op of WriteText p c \<Rightarrow> False | _ \<Rightarrow> True),
      now = (\<lambda>log. example_now)\<rparr>"

text \<open>A history file without the marker, served with a working disk.\<close>

definition example_plain :: string where
  "example_plain = ''head'' @ [NL] @ ''06/01/2023 ABC note''"

definition world_plain_text :: world where
  "world_plain_text =
     \<lparr>http = (\<lambda>log r. Returned \<lparr>status_code = 200, body_text = example_plain, json = NotJson\<rparr>),
      disk = (\<lambda>log op. True),
      now = (\<lambda>log. example_now)\<rparr>"

text \<open>The example history again; the service refuses the move and accepts the write.\<close>

definition world_rename_refused :: world where
  "world_rename_refused =
     \<lparr>http = (\<lambda>log r. case r of
                 GET url \<Rightarrow> Returned \<lparr>status_code = 200, body_text = example_history,
                                      json = NotJson\<rparr>
               | POST url body \<Rightarrow> Returned \<lparr>status_code = 423, body_text = [], json = NotJson\<rparr>
               | PUT url body \<Rightarrow> Returned \<lparr>status_code = 204, body_text = [], json = NotJson\<rparr>),
      disk = (\<lambda>log op. True),
      now = (\<lambda>log. example_now)\<rparr>"

text \<open>
  The query is answered with two items; their folders hold no text file, since the
  same answer is given to every request and its rows have no \<^verbatim>\<open>Name\<close>.
\<close>

definition example_rows :: "row list" where
  "example_rows =
     [\<lparr>ID = Some 7, Name = Missing, FileLeafRef = Str ''Point 101'', Title = Missing,
       Date_x0020_Added = Str ''2024-06-15T00:00:00Z'', Mon_x0020_Description = Missing\<rparr>,
      \<lparr>ID = Some 8, Name = Missing, FileLeafRef = Null, Title = Str ''102'',
       Date_x0020_Added = Null, Mon_x0020_Description = Missing\<rparr>]"

definition world_two_points :: world where
  "world_two_points =
     \<lparr>http = (\<lambda>log r. Returned \<lparr>status_code = 200, body_text = [], json = Results example_rows\<rparr>),
      disk = (\<lambda>log op. True),
      now = (\<lambda>log. example_now)\<rparr>"

text \<open>An observation and four worlds for the history updater.\<close>

definition example_vrs :: vrs_updater where
  "example_vrs = \<lparr>base_url = ''https://sp'', site_name = ''Survey'', library_name = ''Points'',
                   monument_permit = None\<rparr>"

definition example_obs :: VRSObservation where
  "example_obs = \<lparr>document_num = ''DOC-1'', work_order = ''WO-5'', control_used = ''VRS-Net'',
                   obs_point_number = ''101'', township_range = ''T1N R1E'', obs_section = ''12'',
                   date_observed = ''01/02/2024'', monument_type = None\<rparr>"

definition example_listing :: response where
  "example_listing =
     \<lparr>status_code = 200, body_text = [],
      json = Results [\<lparr>ID = Some 7, Name = Str ''Point 101.txt'', FileLeafRef = Missing,
                       Title = Missing, Date_x0020_Added = Missing,
                       Mon_x0020_Description = Missing\<rparr>]\<rparr>"

text \<open>
  The monument query is answered, with no item; the connection is lost before the
  folder is listed.
\<close>

definition world_listing_unreachable :: world where
  "world_listing_unreachable =
     \<lparr>http = (\<lambda>log r.
                if log = [] then Returned \<lparr>status_code = 200, body_text = [], json = Results []\<rparr>
                else Raised ResponseNone),
      disk = (\<lambda>log op. True),
      now = (\<lambda>log. example_now)\<rparr>"

text \<open>The monument query is answered; every later request gets the status 503.\<close>

definition world_listing_refused :: world where
  "world_listing_refused =
     \<lparr>http = (\<lambda>log r.
                if log = [] then Returned \<lparr>status_code = 200, body_text = [], json = Results []\<rparr>
                else Returned \<lparr>status_code = 503, body_text = [], json = NotJson\<rparr>),
      disk = (\<lambda>log op. True),
      now = (\<lambda>log. example_now)\<rparr>"

text \<open>
  The monument query and the listing are answered, the folder holds
  \<^verbatim>\<open>Point 101.txt\<close>; the connection is lost before the file is fetched.
\<close>

definition world_fetch_unreachable :: world where
  "world_fetch_unreachable =
     \<lparr>http = (\<lambda>log r. if length log < 2 then Returned example_listing else Raised ResponseNone),
      disk = (\<lambda>log op. True),
      now = (\<lambda>log. example_now)\<rparr>"

text \<open>
  The same folder; the service answers the fetch of the file, and every later
  request, with status 503.
\<close>

definition world_fetch_breaks :: world where
  "world_fetch_breaks =
     \<lparr>http = (\<lambda>log r.
                if length log < 2 then Returned example_listing
                else Returned \<lparr>status_code = 503, body_text = [], json = NotJson\<rparr>),
      disk = (\<lambda>log op. True),
      now = (\<lambda>log. example_now)\<rparr>"

section \<open>The header of a point history file\<close>

text \<open>
  The header block that the template writes before the entry: a blank line, the title
  line naming the point, a blank line, the column-header line and the separator of 89
  dashes.  \<open>count_header_lines\<close> counts the lines of a text that are the column-header
  line.  The counting properties are stated for fields that hold no line break.
\<close>

definition title_line :: "string \<Rightarrow> string" where
  "title_line point_number = ''    POINT HISTORY FILE: for point '' @ point_number"

definition column_header_line :: string where
  "column_header_line = ''(mm/dd/yyyy) '' @ [TAB] @ ''(initials)'' @ [TAB, TAB] @ ''ACTION/REMARKS''"

definition separator_line :: string where
  "separator_line = replicate 89 (CHR ''-'')"

definition header_block :: "string \<Rightarrow> string" where
  "header_block point_number =
     [NL] @ title_line point_number @ [NL, NL] @ column_header_line @ [NL]
     @ separator_line @ [NL]"

definition count_header_lines :: "string \<Rightarrow> nat" where
  "count_header_lines s = length (filter (\<lambda>l. l = column_header_line) (split_on NL s))"

definition single_line :: "string \<Rightarrow> bool" where
  "single_line s = (NL \<notin> set s)"

definition fields_single_line ::
  "vrs_updater \<Rightarrow> VRSObservation \<Rightarrow> string \<Rightarrow> string \<Rightarrow> bool" where
  "fields_single_line v obs observer initials =
     (single_line initials \<and> single_line observer
      \<and> single_line (document_num obs) \<and> single_line (work_order obs)
      \<and> single_line (control_used obs) \<and> single_line (obs_point_number obs)
      \<and> single_line (township_range obs) \<and> single_line (obs_section obs)
      \<and> single_line (date_observed obs)
      \<and> (case monument_type obs of Some m \<Rightarrow> single_line m | None \<Rightarrow> True)
      \<and> (case monument_permit v of Some permit \<Rightarrow> single_line permit | None \<Rightarrow> True))"

text \<open>
  The three lines of a formatted entry, written out on their own to state what the
  composer's output holds: the date, a tab, the initials, a tab and the sentence on the
  monument; the line of the work order and the permit; the line of the location, the
  observer and the day of the observation.
\<close>

definition formatted_entry_lines ::
  "vrs_updater \<Rightarrow> datetime \<Rightarrow> VRSObservation \<Rightarrow> string \<Rightarrow> string \<Rightarrow> string list" where
  "formatted_entry_lines v today obs observer initials =
     [strftime_mdY today @ [TAB] @ initials @ [TAB] @ ''This monument''
        @ (case monument_type obs of
             Some m \<Rightarrow> if m \<noteq> [] then '' ('' @ m @ '')'' else []
           | None \<Rightarrow> [])
        @ '' was observed with VRS ('' @ document_num obs @ '') using '' @ control_used obs
        @ '' and Geoid18'',
      [TAB, TAB, TAB] @ ''as part of WO '' @ work_order obs
        @ ''. The purpose of this work order was to facilitate ''
        @ (case monument_permit v of
             Some permit \<Rightarrow> if permit \<noteq> [] then permit @ '' '' else []
           | None \<Rightarrow> []),
      [TAB, TAB, TAB] @ ''Section '' @ obs_section obs @ '', '' @ township_range obs
        @ ''. Monument observed by '' @ observer @ '' on '' @ date_observed obs @ ''.'']"

text \<open>An existing history that ends in blank space.\<close>

definition example_existing :: string where
  "example_existing = column_header_line @ [NL] @ ''old entry'' @ [NL, NL, CHR '' '']"

text \<open>
  The example observation with a monument description of several lines, which holds
  the text of a header block.
\<close>

definition example_two_headers :: VRSObservation where
  "example_two_headers =
     example_obs\<lparr>monument_type := Some (''x'' @ header_block ''101'' @ ''y'')\<rparr>"

section \<open>The line patcher: what a line becomes\<close>

lemma is_digit_digit_char: "is_digit (digit_char n)"
  unfolding is_digit_def digit_char_def by (rule nth_mem) simp

lemma is_date_text_strftime: "is_date_text (strftime_mdY d)"
  by (simp add: is_date_text_def strftime_mdY_def pad2_def pad4_def match_date_def
      is_digit_digit_char)

lemma patch_loop_map:
  "patch_loop nd ls acc n =
     (acc @ map (\<lambda>l. if qualifies l then re_sub_date_cms (nd @ [TAB, TAB] @ ''CMS'') l else l) ls,
      n + length (filter qualifies ls))"
  by (induction ls arbitrary: acc n) (simp_all add: qualifies_def)

lemma re_sub_skip:
  "no_match_before (length pre) (pre @ m) \<Longrightarrow>
     re_sub_date_cms repl (pre @ m) = pre @ re_sub_date_cms repl m"
proof (induction pre)
  case Nil
  then show ?case by simp
next
  case (Cons c pre)
  have here: "match_date_cms (c # pre @ m) = None"
    using Cons.prems by (auto simp: no_match_before_def dest: spec [of _ 0])
  have "no_match_before (length pre) (pre @ m)"
    unfolding no_match_before_def
  proof (intro allI impI)
    fix i assume "i < length pre"
    then have "Suc i < length (c # pre)" by simp
    with Cons.prems have "match_date_cms (drop (Suc i) ((c # pre) @ m)) = None"
      unfolding no_match_before_def by blast
    then show "match_date_cms (drop i (pre @ m)) = None" by simp
  qed
  with Cons.IH have "re_sub_date_cms repl (pre @ m) = pre @ re_sub_date_cms repl m" .
  with here show ?case by simp
qed

lemma re_sub_no_match:
  assumes "no_match_before (length s) s"
  shows "re_sub_date_cms repl s = s"
  using re_sub_skip [of s "[]" repl] assms by simp

lemma match_date_append:
  "is_date_text dt \<Longrightarrow> match_date (dt @ r) = Some r"
  by (auto simp: is_date_text_def match_date_def nth_append split: if_splits)

lemma not_space_C: "\<not> is_space (CHR ''C'')"
  by (simp add: is_space_def)

lemma match_date_cms_found:
  assumes "is_date_text dt" "ws \<noteq> []" "\<forall>c\<in>set ws. is_space c"
  shows "match_date_cms (dt @ ws @ ''CMS'' @ post) = Some post"
proof -
  have tw: "takeWhile is_space (ws @ ''CMS'' @ post) = ws"
    using assms(3) not_space_C by (simp add: takeWhile_append2)
  have dw: "dropWhile is_space (ws @ ''CMS'' @ post) = ''CMS'' @ post"
    using assms(3) not_space_C by (simp add: dropWhile_append2)
  show ?thesis
    using assms(1,2) tw dw by (simp add: match_date_cms_def match_date_append)
qed

lemma re_sub_found:
  assumes "is_date_text dt" "ws \<noteq> []" "\<forall>c\<in>set ws. is_space c"
  shows "re_sub_date_cms repl (dt @ ws @ ''CMS'' @ post) = repl @ re_sub_date_cms repl post"
proof -
  from assms(1) have "dt \<noteq> []"
    by (auto simp: is_date_text_def match_date_def split: if_splits)
  then obtain c cs where dt: "dt = c # cs" by (cases dt) auto
  have "match_date_cms (c # (cs @ ws @ ''CMS'' @ post)) = Some post"
    using match_date_cms_found [OF assms, of post] dt by simp
  then have "re_sub_date_cms repl (c # (cs @ ws @ ''CMS'' @ post)) = repl @ re_sub_date_cms repl post"
    by simp
  then show ?thesis using dt by simp
qed

lemma re_sub_first:
  assumes "is_date_text dt" "ws \<noteq> []" "\<forall>c\<in>set ws. is_space c"
    and "no_match_before (length pre) (pre @ dt @ ws @ ''CMS'' @ post)"
  shows "re_sub_date_cms repl (pre @ dt @ ws @ ''CMS'' @ post)
         = pre @ repl @ re_sub_date_cms repl post"
  using re_sub_skip [OF assms(4)] re_sub_found [OF assms(1-3)] by simp

lemma str_contains_prefix: "prefix p s \<Longrightarrow> str_contains p s"
  by (cases s) auto

lemma str_contains_append: "str_contains p (a @ p @ b)"
proof (induction a)
  case Nil
  show ?case by (simp add: str_contains_prefix)
next
  case (Cons c a)
  then show ?case by simp
qed

lemma re_search_date_append:
  assumes "is_date_text dt"
  shows "re_search_date (pre @ dt @ r)"
proof (induction pre)
  case Nil
  from assms have "dt \<noteq> []"
    by (auto simp: is_date_text_def match_date_def split: if_splits)
  then obtain c cs where dt: "dt = c # cs" by (cases dt) auto
  have "match_date (c # cs @ r) = Some r"
    using match_date_append [OF assms, of r] dt by simp
  then show ?case using dt by simp
next
  case (Cons c pre)
  then show ?case by simp
qed

lemma qualifies_decomposed:
  assumes "is_date_text dt"
  shows "qualifies (pre @ dt @ ws @ ''CMS'' @ post)"
proof -
  have "str_contains ''CMS'' ((pre @ dt @ ws) @ ''CMS'' @ post)"
    by (rule str_contains_append)
  moreover have "re_search_date (pre @ dt @ (ws @ ''CMS'' @ post))"
    using assms by (rule re_search_date_append)
  ultimately show ?thesis by (simp add: qualifies_def)
qed

lemma no_match_beforeI:
  "list_all (\<lambda>i. match_date_cms (drop i s) = None) [0..<n] \<Longrightarrow> no_match_before n s"
  by (auto simp: no_match_before_def list_all_iff)

text \<open>
  Claim C1, as the code has it.  The lines of the output are the lines of the input,
  in order.  A line that does not both contain \<^verbatim>\<open>CMS\<close> and match the date pattern
  is copied as it is, and so is a line in which no date is followed by white space
  and \<^verbatim>\<open>CMS\<close>.  In a line \<open>pre @ dt @ ws @ ''CMS'' @ post\<close> whose first match is the
  date \<open>dt\<close> with the white space \<open>ws\<close> after it, the date becomes the new date in
  the form MM/DD/YYYY, the white space becomes two tabs, the marker stays, \<open>pre\<close> is
  kept, and \<open>post\<close> is treated the same way.
\<close>

theorem line_patcher_rewrites_date_before_marker:
  assumes lines: "lines = split_on NL content"
    and out: "out = fst (patch_lines (strftime_mdY d) content)"
  shows "is_date_text (strftime_mdY d) \<and> length out = length lines \<and>
    (\<forall>i<length lines.
       (\<not> qualifies (lines ! i) \<longrightarrow> out ! i = lines ! i) \<and>
       (no_match_before (length (lines ! i)) (lines ! i) \<longrightarrow> out ! i = lines ! i) \<and>
       (\<forall>pre dt ws post.
          lines ! i = pre @ dt @ ws @ ''CMS'' @ post \<and> is_date_text dt \<and> ws \<noteq> [] \<and>
          (\<forall>c\<in>set ws. is_space c) \<and> no_match_before (length pre) (lines ! i) \<longrightarrow>
          out ! i = pre @ strftime_mdY d @ [TAB, TAB] @ ''CMS''
                    @ re_sub_date_cms (strftime_mdY d @ [TAB, TAB] @ ''CMS'') post))"
proof -
  let ?repl = "strftime_mdY d @ [TAB, TAB] @ ''CMS''"
  let ?f = "\<lambda>l. if qualifies l then re_sub_date_cms ?repl l else l"
  have out_map: "out = map ?f lines"
    using lines out by (simp add: patch_lines_def patch_loop_map)
  have per_line: "out ! i = ?f (lines ! i)" if "i < length lines" for i
    using that out_map by simp
  have a: "out ! i = lines ! i" if "i < length lines" "\<not> qualifies (lines ! i)" for i
    using per_line [OF that(1)] that(2) by simp
  have b: "out ! i = lines ! i"
    if "i < length lines" "no_match_before (length (lines ! i)) (lines ! i)" for i
    using per_line [OF that(1)] re_sub_no_match [OF that(2), of ?repl] by simp
  have c: "out ! i = pre @ ?repl @ re_sub_date_cms ?repl post"
    if "i < length lines" "lines ! i = pre @ dt @ ws @ ''CMS'' @ post" "is_date_text dt"
      "ws \<noteq> []" "\<forall>c\<in>set ws. is_space c" "no_match_before (length pre) (lines ! i)"
    for i pre dt ws post
  proof -
    have q: "qualifies (lines ! i)"
      using qualifies_decomposed [OF that(3), of pre ws post] that(2) by simp
    have "re_sub_date_cms ?repl (pre @ dt @ ws @ ''CMS'' @ post)
          = pre @ ?repl @ re_sub_date_cms ?repl post"
      using that(3,4,5) that(6) [unfolded that(2)] by (rule re_sub_first)
    with q per_line [OF that(1)] that(2) show ?thesis by simp
  qed
  show ?thesis
  proof (intro conjI allI impI)
    show "is_date_text (strftime_mdY d)" by (rule is_date_text_strftime)
    show "length out = length lines" using out_map by simp
  next
    fix i assume "i < length lines" "\<not> qualifies (lines ! i)"
    then show "out ! i = lines ! i" by (rule a)
  next
    fix i assume "i < length lines" "no_match_before (length (lines ! i)) (lines ! i)"
    then show "out ! i = lines ! i" by (rule b)
  next
    fix i pre dt ws post
    assume i: "i < length lines"
      and h: "lines ! i = pre @ dt @ ws @ ''CMS'' @ post \<and> is_date_text dt \<and> ws \<noteq> [] \<and>
              (\<forall>c\<in>set ws. is_space c) \<and> no_match_before (length pre) (lines ! i)"
    from h have h1: "lines ! i = pre @ dt @ ws @ ''CMS'' @ post"
      and h2: "is_date_text dt" and h3: "ws \<noteq> []" and h4: "\<forall>c\<in>set ws. is_space c"
      and h5: "no_match_before (length pre) (lines ! i)"
      by blast+
    have "out ! i = pre @ ?repl @ re_sub_date_cms ?repl post"
      using i h1 h2 h3 h4 h5 by (rule c)
    then show "out ! i = pre @ strftime_mdY d @ [TAB, TAB] @ ''CMS''
                         @ re_sub_date_cms ?repl post"
      by simp
  qed
qed

theorem line_patcher_rewrites_date_before_marker_witness:
  fixes out :: "string list"
  defines "out \<equiv> fst (patch_lines (strftime_mdY \<lparr>year = 2024, month = 6, day = 15,
                                   hour = 0, minute = 0, second = 0\<rparr>)
          (''head'' @ [NL] @ ''06/01/2023'' @ [TAB, TAB] @ ''CMS'' @ [TAB] @ ''note''
           @ [NL] @ ''CMS 01/02/2023''))"
  shows "length out = 3 \<and> out ! 0 = ''head''
    \<and> out ! 1 = ''06/15/2024'' @ [TAB, TAB] @ ''CMS'' @ [TAB] @ ''note''
    \<and> out ! 2 = ''CMS 01/02/2023''"
proof -
  let ?d = "\<lparr>year = 2024, month = 6, day = 15, hour = 0, minute = 0, second = 0\<rparr>"
  let ?content = "''head'' @ [NL] @ ''06/01/2023'' @ [TAB, TAB] @ ''CMS'' @ [TAB] @ ''note''
                  @ [NL] @ ''CMS 01/02/2023''"
  let ?l1 = "''06/01/2023'' @ [TAB, TAB] @ ''CMS'' @ [TAB] @ ''note''"
  have lines: "split_on NL ?content = [''head'', ?l1, ''CMS 01/02/2023'']"
    by (simp add: NL_def TAB_def)
  have nd: "strftime_mdY ?d = ''06/15/2024''"
    by (simp add: strftime_mdY_def pad2_def pad4_def digit_char_def)
  note T = line_patcher_rewrites_date_before_marker
      [where content = ?content and d = ?d, OF refl out_def [THEN meta_eq_to_obj_eq],
       unfolded lines]
  note per_line = T [THEN conjunct2, THEN conjunct2, rule_format]
  have len: "length out = 3"
    using T [THEN conjunct2, THEN conjunct1] by simp
  have q0: "\<not> qualifies ''head''"
    by (simp add: qualifies_def)
  have o0: "out ! 0 = ''head''"
    using per_line [of 0, THEN conjunct1, rule_format] q0 by simp
  have h1: "is_date_text ''06/01/2023''" "\<forall>c\<in>set [TAB, TAB]. is_space c"
    "no_match_before (length ([]::string)) ?l1"
    by (simp_all add: is_date_text_def match_date_def is_digit_def is_space_def TAB_def
        no_match_before_def)
  have "out ! 1 = [] @ strftime_mdY ?d @ [TAB, TAB] @ ''CMS''
                   @ re_sub_date_cms (strftime_mdY ?d @ [TAB, TAB] @ ''CMS'') ([TAB] @ ''note'')"
    using h1
    by (intro per_line [of 1, THEN conjunct2, THEN conjunct2, rule_format,
                        of "[]" "''06/01/2023''" "[TAB, TAB]" "[TAB] @ ''note''"])
       simp_all
  then have o1: "out ! 1 = ''06/15/2024'' @ [TAB, TAB] @ ''CMS'' @ [TAB] @ ''note''"
    by (simp add: nd match_date_cms_def match_date_def is_digit_def TAB_def)
  have h2: "no_match_before (length ''CMS 01/02/2023'') ''CMS 01/02/2023''"
    by (rule no_match_beforeI)
       (simp add: upt_rec match_date_cms_def match_date_def is_digit_def)
  have o2: "out ! 2 = ''CMS 01/02/2023''"
    using per_line [of 2, THEN conjunct2, THEN conjunct1, rule_format] h2 by simp
  show ?thesis
    using len o0 o1 o2 by (intro conjI)
qed

text \<open>
  The claim as worded fails: the line \<^verbatim>\<open>CMS 01/02/2023\<close> contains the marker and a
  date, yet it is written back unchanged, so its date is not the new date.
\<close>

theorem line_patcher_unpatched_counterexample:
  "qualifies ''CMS 01/02/2023''
   \<and> strftime_mdY \<lparr>year = 2024, month = 6, day = 15, hour = 0, minute = 0, second = 0\<rparr>
       = ''06/15/2024''
   \<and> fst (patch_lines ''06/15/2024'' ''CMS 01/02/2023'') = [''CMS 01/02/2023'']
   \<and> \<not> str_contains ''06/15/2024'' ''CMS 01/02/2023''"
  by (simp add: qualifies_def match_date_def match_date_cms_def is_digit_def
      strftime_mdY_def pad2_def pad4_def digit_char_def patch_lines_def NL_def)

section \<open>\<^verbatim>\<open>update_text_file\<close>: what is sent, and when\<close>

lemma send_log: "snd (send w log r) = log @ [Sent r]"
  by (simp add: send_def)

lemma get_text_file_content_log:
  "snd (get_text_file_content w log u pn fn) = log @ [Sent (GET (file_value_url u pn fn))]"
  by (simp add: get_text_file_content_def send_def split: result.splits)

lemma download_original_file_log:
  "\<exists>evs. snd (download_original_file w log u pn fn) = log @ evs
         \<and> (\<forall>e\<in>set evs. \<not> remote_mutation e)"
proof (cases "fst (get_text_file_content w log u pn fn)")
  case None
  then show ?thesis
    using get_text_file_content_log [of w log u pn fn]
    by (cases "get_text_file_content w log u pn fn")
       (auto simp: download_original_file_def)
next
  case (Some c)
  then show ?thesis
    using get_text_file_content_log [of w log u pn fn]
    by (cases "get_text_file_content w log u pn fn")
       (auto simp: download_original_file_def local_op_def Let_def)
qed

lemma patch_loop_count:
  "snd (patch_loop nd ls [] 0) = length (filter qualifies ls)"
  by (simp add: patch_loop_map)

lemma update_text_file_backup_failed:
  assumes "download_original_file w log u pn fn = (False, log1)"
  shows "update_text_file w log u pn fn new_date = (False, log1)"
  using assms by (simp add: update_text_file_def)

lemma update_text_file_fetch_failed:
  assumes "download_original_file w log u pn fn = (True, log1)"
    and "get_text_file_content w log1 u pn fn = (None, log2)"
  shows "update_text_file w log u pn fn new_date = (False, log2)"
  using assms by (simp add: update_text_file_def)

lemma update_text_file_no_date:
  assumes "download_original_file w log u pn fn = (True, log1)"
    and "get_text_file_content w log1 u pn fn = (Some content, log2)"
    and "to_datetime new_date = None"
  shows "update_text_file w log u pn fn new_date = (False, log2)"
  using assms by (simp add: update_text_file_def)

lemma update_text_file_no_update:
  assumes "download_original_file w log u pn fn = (True, log1)"
    and "get_text_file_content w log1 u pn fn = (Some content, log2)"
    and "to_datetime new_date = Some d"
    and "snd (patch_loop (strftime_mdY d) (split_on NL content) [] 0) = 0"
  shows "update_text_file w log u pn fn new_date = (False, log2)"
proof -
  obtain updated_lines n
    where p: "patch_loop (strftime_mdY d) (split_on NL content) [] 0 = (updated_lines, n)"
    by (cases "patch_loop (strftime_mdY d) (split_on NL content) [] 0")
  with assms(4) have "n = 0" by simp
  with assms(1-3) p show ?thesis by (simp add: update_text_file_def)
qed

lemma case_result_returned:
  "(case r of Raised e \<Rightarrow> (False, l) | Returned resp \<Rightarrow> (True, l)) = (returned r, l)"
  by (cases r) (simp_all add: returned_def)

lemma update_text_file_write_stage:
  assumes "download_original_file w log u pn fn = (True, log1)"
    and "get_text_file_content w log1 u pn fn = (Some content, log2)"
    and "to_datetime new_date = Some d"
    and "patch_loop (strftime_mdY d) (split_on NL content) [] 0 = (updated_lines, n)"
    and "n \<noteq> 0"
  shows "update_text_file w log u pn fn new_date =
           (if lower fn \<noteq> lower (desired_file_name pn)
            then
              (returned
                 (fst (send w (log2 @ [Sent (POST (move_url u pn fn (desired_file_name pn)) None)])
                         (PUT (file_value_url u pn (desired_file_name pn))
                              (join_with [NL] updated_lines)))),
               log2 @ [Sent (POST (move_url u pn fn (desired_file_name pn)) None),
                       Sent (PUT (file_value_url u pn (desired_file_name pn))
                                 (join_with [NL] updated_lines))])
            else
              (returned
                 (fst (send w log2 (PUT (file_value_url u pn fn) (join_with [NL] updated_lines)))),
               log2 @ [Sent (PUT (file_value_url u pn fn) (join_with [NL] updated_lines))]))"
  using assms
  by (simp add: update_text_file_def rename_sharepoint_file_def case_result_returned Let_def
      split_beta send_log)

text \<open>The events of one call, stage by stage.\<close>

lemma update_text_file_events:
  "\<exists>evs. snd (update_text_file w log u pn fn new_date) = log @ evs
     \<and> ((\<forall>e\<in>set evs. \<not> remote_mutation e) \<and> \<not> fst (update_text_file w log u pn fn new_date)
        \<or> (\<exists>quiet content d.
              (\<forall>e\<in>set quiet. \<not> remote_mutation e)
              \<and> get_text_file_content w (snd (download_original_file w log u pn fn)) u pn fn
                  = (Some content, log @ quiet)
              \<and> to_datetime new_date = Some d
              \<and> snd (patch_loop (strftime_mdY d) (split_on NL content) [] 0) \<noteq> 0
              \<and> (if lower fn \<noteq> lower (desired_file_name pn)
                  then evs = quiet @ [Sent (POST (move_url u pn fn (desired_file_name pn)) None),
                                      Sent (PUT (file_value_url u pn (desired_file_name pn))
                                             (join_with [NL]
                                                (fst (patch_loop (strftime_mdY d)
                                                        (split_on NL content) [] 0))))]
                  else evs = quiet @ [Sent (PUT (file_value_url u pn fn)
                                             (join_with [NL]
                                                (fst (patch_loop (strftime_mdY d)
                                                        (split_on NL content) [] 0))))])))"
proof -
  obtain ok log1 where dl: "download_original_file w log u pn fn = (ok, log1)"
    by (cases "download_original_file w log u pn fn")
  obtain evs1 where log1: "log1 = log @ evs1" and quiet1: "\<forall>e\<in>set evs1. \<not> remote_mutation e"
    using download_original_file_log [of w log u pn fn] dl by auto
  show ?thesis
  proof (cases ok)
    case False
    with dl have "update_text_file w log u pn fn new_date = (False, log1)"
      by (simp add: update_text_file_backup_failed)
    with log1 quiet1 show ?thesis by auto
  next
    case True
    with dl have dl: "download_original_file w log u pn fn = (True, log1)" by simp
    obtain fetched log2 where gc: "get_text_file_content w log1 u pn fn = (fetched, log2)"
      by (cases "get_text_file_content w log1 u pn fn")
    have log2: "log2 = log @ (evs1 @ [Sent (GET (file_value_url u pn fn))])"
      using get_text_file_content_log [of w log1 u pn fn] gc log1 by simp
    have quiet2: "\<forall>e\<in>set (evs1 @ [Sent (GET (file_value_url u pn fn))]). \<not> remote_mutation e"
      using quiet1 by simp
    show ?thesis
    proof (cases fetched)
      case None
      with dl gc have "update_text_file w log u pn fn new_date = (False, log2)"
        by (simp add: update_text_file_fetch_failed)
      with log2 quiet2 show ?thesis by (intro exI [of _ "evs1 @ [Sent (GET (file_value_url u pn fn))]"]) simp
    next
      case (Some content)
      with gc have gc: "get_text_file_content w log1 u pn fn = (Some content, log2)" by simp
      show ?thesis
      proof (cases "to_datetime new_date")
        case None
        with dl gc have "update_text_file w log u pn fn new_date = (False, log2)"
          by (simp add: update_text_file_no_date)
        with log2 quiet2 show ?thesis
          by (intro exI [of _ "evs1 @ [Sent (GET (file_value_url u pn fn))]"]) simp
      next
        case (Some d)
        obtain updated_lines n
          where pl: "patch_loop (strftime_mdY d) (split_on NL content) [] 0 = (updated_lines, n)"
          by (cases "patch_loop (strftime_mdY d) (split_on NL content) [] 0")
        show ?thesis
        proof (cases "n = 0")
          case True
          with pl have "snd (patch_loop (strftime_mdY d) (split_on NL content) [] 0) = 0"
            by simp
          with dl gc Some have "update_text_file w log u pn fn new_date = (False, log2)"
            by (rule update_text_file_no_update)
          with log2 quiet2 show ?thesis
            by (intro exI [of _ "evs1 @ [Sent (GET (file_value_url u pn fn))]"]) simp
        next
          case False
          note ws = update_text_file_write_stage [OF dl gc Some pl False]
          have gc': "get_text_file_content w (snd (download_original_file w log u pn fn)) u pn fn
                     = (Some content, log @ (evs1 @ [Sent (GET (file_value_url u pn fn))]))"
            using dl gc log2 by simp
          have nz: "snd (patch_loop (strftime_mdY d) (split_on NL content) [] 0) \<noteq> 0"
            using pl False by simp
          show ?thesis
          proof (cases "lower fn \<noteq> lower (desired_file_name pn)")
            case True
            show ?thesis
              apply (rule exI [of _ "(evs1 @ [Sent (GET (file_value_url u pn fn))])
                      @ [Sent (POST (move_url u pn fn (desired_file_name pn)) None),
                         Sent (PUT (file_value_url u pn (desired_file_name pn))
                                (join_with [NL] updated_lines))]"])
              apply (rule conjI)
               apply (simp add: ws True log2)
              apply (rule disjI2)
              apply (rule exI [of _ "evs1 @ [Sent (GET (file_value_url u pn fn))]"])
              apply (rule exI [of _ content])
              apply (rule exI [of _ d])
              using quiet2 gc' Some nz True pl apply simp
              done
          next
            case False
            show ?thesis
              apply (rule exI [of _ "(evs1 @ [Sent (GET (file_value_url u pn fn))])
                      @ [Sent (PUT (file_value_url u pn fn) (join_with [NL] updated_lines))]"])
              apply (rule conjI)
               apply (simp add: ws False log2)
              apply (rule disjI2)
              apply (rule exI [of _ "evs1 @ [Sent (GET (file_value_url u pn fn))]"])
              apply (rule exI [of _ content])
              apply (rule exI [of _ d])
              using quiet2 gc' Some nz False pl apply simp
              done
          qed
        qed
      qed
    qed
  qed
qed

lemma example_backup_name:
  "''original_'' @ str_replace ''.txt'' [] ''old.txt'' @ ''_'' @ strftime_stamp example_now @ ''.txt''
   = ''original_old_20240615_010203.txt''"
  by (simp add: example_now_def strftime_stamp_def pad2_def pad4_def digit_char_def)

text \<open>The run on the history without the marker.\<close>

lemma example_plain_backup:
  "download_original_file world_plain_text [] example_updater ''101'' ''old.txt''
   = (True,
      [Sent (GET (file_value_url example_updater ''101'' ''old.txt'')),
       Local (MakeDirs [''backups'', ''Point_101'']),
       Local (WriteText [''backups'', ''Point_101'', ''original_old_20240615_010203.txt'']
                example_plain)])"
  using example_backup_name
  by (simp add: download_original_file_def get_text_file_content_def send_def local_op_def
      world_plain_text_def example_updater_def)

lemma example_plain_fetch:
  "get_text_file_content world_plain_text
     [Sent (GET (file_value_url example_updater ''101'' ''old.txt'')),
      Local (MakeDirs [''backups'', ''Point_101'']),
      Local (WriteText [''backups'', ''Point_101'', ''original_old_20240615_010203.txt'']
               example_plain)]
     example_updater ''101'' ''old.txt''
   = (Some example_plain,
      [Sent (GET (file_value_url example_updater ''101'' ''old.txt'')),
       Local (MakeDirs [''backups'', ''Point_101'']),
       Local (WriteText [''backups'', ''Point_101'', ''original_old_20240615_010203.txt'']
                example_plain),
       Sent (GET (file_value_url example_updater ''101'' ''old.txt''))])"
  by (simp add: get_text_file_content_def send_def world_plain_text_def)

lemma example_plain_no_line: "filter qualifies (split_on NL example_plain) = []"
  by (simp add: example_plain_def NL_def qualifies_def)

lemma example_plain_run:
  "update_text_file world_plain_text [] example_updater ''101'' ''old.txt''
     (IsoStr ''2024-06-15'')
   = (False,
      [Sent (GET (file_value_url example_updater ''101'' ''old.txt'')),
       Local (MakeDirs [''backups'', ''Point_101'']),
       Local (WriteText [''backups'', ''Point_101'', ''original_old_20240615_010203.txt'']
                example_plain),
       Sent (GET (file_value_url example_updater ''101'' ''old.txt''))])"
proof -
  have date: "to_datetime (IsoStr ''2024-06-15'')
              = Some \<lparr>year = 2024, month = 6, day = 15, hour = 0, minute = 0, second = 0\<rparr>"
    by code_simp
  have "snd (patch_loop (strftime_mdY \<lparr>year = 2024, month = 6, day = 15,
                                        hour = 0, minute = 0, second = 0\<rparr>)
               (split_on NL example_plain) [] 0) = 0"
    using example_plain_no_line by (simp add: patch_loop_count)
  with example_plain_backup example_plain_fetch date show ?thesis
    by (rule update_text_file_no_update)
qed

text \<open>
  Claim C3.  When the backup of the original content fails (the content cannot be
  fetched, the backup directory cannot be made or the backup file cannot be written),
  \<^verbatim>\<open>update_text_file\<close> returns \<open>False\<close> at once: its events are those of the backup
  attempt, and none of them is a rename or a content write.
\<close>

theorem backup_failure_aborts_before_mutation:
  assumes "fst (download_original_file w log u pn fn) = False"
  shows "update_text_file w log u pn fn new_date
           = (False, snd (download_original_file w log u pn fn))
         \<and> (\<exists>evs. snd (update_text_file w log u pn fn new_date) = log @ evs
                   \<and> (\<forall>e\<in>set evs. \<not> remote_mutation e))"
proof -
  have "update_text_file w log u pn fn new_date
          = (False, snd (download_original_file w log u pn fn))"
    using assms
    by (cases "download_original_file w log u pn fn") (simp add: update_text_file_def)
  then show ?thesis
    using download_original_file_log [of w log u pn fn] by simp
qed

theorem backup_failure_aborts_before_mutation_witness:
  "fst (download_original_file world_disk_full [] example_updater ''101'' ''old.txt'') = False
   \<and> update_text_file world_disk_full [] example_updater ''101'' ''old.txt'' (IsoStr ''2024-06-15'')
       = (False,
          [Sent (GET (file_value_url example_updater ''101'' ''old.txt'')),
           Local (MakeDirs [''backups'', ''Point_101'']),
           Local (WriteText [''backups'', ''Point_101'', ''original_old_20240615_010203.txt'']
                    example_history)])"
proof -
  have d: "download_original_file world_disk_full [] example_updater ''101'' ''old.txt''
           = (False,
              [Sent (GET (file_value_url example_updater ''101'' ''old.txt'')),
               Local (MakeDirs [''backups'', ''Point_101'']),
               Local (WriteText [''backups'', ''Point_101'', ''original_old_20240615_010203.txt'']
                        example_history)])"
    by (simp add: download_original_file_def get_text_file_content_def send_def local_op_def
        world_disk_full_def example_updater_def example_now_def strftime_stamp_def
        pad2_def pad4_def digit_char_def)
  then have "fst (download_original_file world_disk_full [] example_updater ''101'' ''old.txt'')
             = False"
    by simp
  from this backup_failure_aborts_before_mutation [OF this, of "IsoStr ''2024-06-15''"]
  show ?thesis by (simp add: d)
qed

text \<open>
  Claim C4.  When the text fetched for patching has no line that both contains
  \<^verbatim>\<open>CMS\<close> and matches the date pattern, however many lines it has,
  \<^verbatim>\<open>update_text_file\<close> returns \<open>False\<close> and sends neither a rename nor a write.
\<close>

theorem no_qualifying_line_fails_without_write:
  assumes "\<And>content log2.
             get_text_file_content w (snd (download_original_file w log u pn fn)) u pn fn
               = (Some content, log2)
             \<Longrightarrow> filter qualifies (split_on NL content) = []"
  shows "fst (update_text_file w log u pn fn new_date) = False
         \<and> (\<exists>evs. snd (update_text_file w log u pn fn new_date) = log @ evs
                   \<and> (\<forall>e\<in>set evs. \<not> remote_mutation e))"
proof -
  obtain evs where evs: "snd (update_text_file w log u pn fn new_date) = log @ evs"
    and alt: "(\<forall>e\<in>set evs. \<not> remote_mutation e) \<and> \<not> fst (update_text_file w log u pn fn new_date)
        \<or> (\<exists>quiet content d.
              get_text_file_content w (snd (download_original_file w log u pn fn)) u pn fn
                  = (Some content, log @ quiet)
              \<and> snd (patch_loop (strftime_mdY d) (split_on NL content) [] 0) \<noteq> 0)"
    using update_text_file_events [of w log u pn fn new_date] by blast
  have "\<not> (\<exists>quiet content d.
              get_text_file_content w (snd (download_original_file w log u pn fn)) u pn fn
                  = (Some content, log @ quiet)
              \<and> snd (patch_loop (strftime_mdY d) (split_on NL content) [] 0) \<noteq> 0)"
    using assms by (auto simp: patch_loop_count)
  with alt have "(\<forall>e\<in>set evs. \<not> remote_mutation e)"
    and "\<not> fst (update_text_file w log u pn fn new_date)"
    by blast+
  with evs show ?thesis by auto
qed

theorem no_qualifying_line_fails_without_write_witness:
  "fst (update_text_file world_plain_text [] example_updater ''101'' ''old.txt''
          (IsoStr ''2024-06-15'')) = False
   \<and> snd (update_text_file world_plain_text [] example_updater ''101'' ''old.txt''
            (IsoStr ''2024-06-15''))
     = [Sent (GET (file_value_url example_updater ''101'' ''old.txt'')),
        Local (MakeDirs [''backups'', ''Point_101'']),
        Local (WriteText [''backups'', ''Point_101'', ''original_old_20240615_010203.txt'']
                 example_plain),
        Sent (GET (file_value_url example_updater ''101'' ''old.txt''))]"
proof -
  have "fst (update_text_file world_plain_text [] example_updater ''101'' ''old.txt''
               (IsoStr ''2024-06-15'')) = False
        \<and> (\<exists>evs. snd (update_text_file world_plain_text [] example_updater ''101'' ''old.txt''
                           (IsoStr ''2024-06-15'')) = [] @ evs
                  \<and> (\<forall>e\<in>set evs. \<not> remote_mutation e))"
  proof (rule no_qualifying_line_fails_without_write)
    fix content log2
    assume "get_text_file_content world_plain_text
          (snd (download_original_file world_plain_text [] example_updater ''101'' ''old.txt''))
          example_updater ''101'' ''old.txt'' = (Some content, log2)"
    then show "filter qualifies (split_on NL content) = []"
      using example_plain_no_line by (simp add: example_plain_backup example_plain_fetch)
  qed
  then have "fst (update_text_file world_plain_text [] example_updater ''101'' ''old.txt''
                    (IsoStr ''2024-06-15'')) = False"
    by (rule conjunct1)
  then show ?thesis by (simp add: example_plain_run)
qed

text \<open>
  Claim C5, as the code has it.  A move request appears among the events of
  \<^verbatim>\<open>update_text_file\<close> only if the file name differs, case ignored, from
  \<^verbatim>\<open>Point {point_number}.txt\<close>.  Once the update reaches its write (backup made,
  content fetched, date read, at least one line counted), the move is requested exactly
  when the names differ; whatever the outcome of the move, the write follows, it goes
  to the desired name, and the result of the call is the result of the write alone.
\<close>

theorem rename_iff_name_differs_then_write_to_desired_name:
  "(\<exists>evs. snd (update_text_file w log u pn fn new_date) = log @ evs
      \<and> (\<forall>url body. Sent (POST url body) \<in> set evs
            \<longrightarrow> lower fn \<noteq> lower (desired_file_name pn)))
   \<and> (\<forall>log1 content log2 d updated_lines n.
        download_original_file w log u pn fn = (True, log1)
        \<and> get_text_file_content w log1 u pn fn = (Some content, log2)
        \<and> to_datetime new_date = Some d
        \<and> patch_loop (strftime_mdY d) (split_on NL content) [] 0 = (updated_lines, n)
        \<and> n \<noteq> 0 \<longrightarrow>
        update_text_file w log u pn fn new_date =
           (if lower fn \<noteq> lower (desired_file_name pn)
            then
              (returned
                 (fst (send w (log2 @ [Sent (POST (move_url u pn fn (desired_file_name pn)) None)])
                         (PUT (file_value_url u pn (desired_file_name pn))
                              (join_with [NL] updated_lines)))),
               log2 @ [Sent (POST (move_url u pn fn (desired_file_name pn)) None),
                       Sent (PUT (file_value_url u pn (desired_file_name pn))
                                 (join_with [NL] updated_lines))])
            else
              (returned
                 (fst (send w log2 (PUT (file_value_url u pn fn) (join_with [NL] updated_lines)))),
               log2 @ [Sent (PUT (file_value_url u pn fn) (join_with [NL] updated_lines))])))"
proof (rule conjI)
  obtain evs where evs: "snd (update_text_file w log u pn fn new_date) = log @ evs"
    and alt: "(\<forall>e\<in>set evs. \<not> remote_mutation e)
        \<or> (\<exists>quiet body.
              (\<forall>e\<in>set quiet. \<not> remote_mutation e)
              \<and> (if lower fn \<noteq> lower (desired_file_name pn)
                  then evs = quiet @ [Sent (POST (move_url u pn fn (desired_file_name pn)) None),
                                      Sent (PUT (file_value_url u pn (desired_file_name pn)) body)]
                  else evs = quiet @ [Sent (PUT (file_value_url u pn fn) body)]))"
    using update_text_file_events [of w log u pn fn new_date] by blast
  have "lower fn \<noteq> lower (desired_file_name pn)" if "Sent (POST url body) \<in> set evs" for url body
    using alt
  proof
    assume "\<forall>e\<in>set evs. \<not> remote_mutation e"
    with that have "\<not> remote_mutation (Sent (POST url body))" by blast
    then show ?thesis by simp
  next
    assume "\<exists>quiet body.
              (\<forall>e\<in>set quiet. \<not> remote_mutation e)
              \<and> (if lower fn \<noteq> lower (desired_file_name pn)
                  then evs = quiet @ [Sent (POST (move_url u pn fn (desired_file_name pn)) None),
                                      Sent (PUT (file_value_url u pn (desired_file_name pn)) body)]
                  else evs = quiet @ [Sent (PUT (file_value_url u pn fn) body)])"
    then obtain quiet b where q: "\<forall>e\<in>set quiet. \<not> remote_mutation e"
      and e: "if lower fn \<noteq> lower (desired_file_name pn)
                  then evs = quiet @ [Sent (POST (move_url u pn fn (desired_file_name pn)) None),
                                      Sent (PUT (file_value_url u pn (desired_file_name pn)) b)]
                  else evs = quiet @ [Sent (PUT (file_value_url u pn fn) b)]"
      by blast
    show ?thesis
    proof (rule ccontr)
      assume "\<not> lower fn \<noteq> lower (desired_file_name pn)"
      with e have "evs = quiet @ [Sent (PUT (file_value_url u pn fn) b)]" by simp
      with that have "Sent (POST url body) \<in> set quiet" by simp
      with q have "\<not> remote_mutation (Sent (POST url body))" by blast
      then show False by simp
    qed
  qed
  with evs show "\<exists>evs. snd (update_text_file w log u pn fn new_date) = log @ evs
      \<and> (\<forall>url body. Sent (POST url body) \<in> set evs
            \<longrightarrow> lower fn \<noteq> lower (desired_file_name pn))"
    by blast
next
  show "\<forall>log1 content log2 d updated_lines n.
        download_original_file w log u pn fn = (True, log1)
        \<and> get_text_file_content w log1 u pn fn = (Some content, log2)
        \<and> to_datetime new_date = Some d
        \<and> patch_loop (strftime_mdY d) (split_on NL content) [] 0 = (updated_lines, n)
        \<and> n \<noteq> 0 \<longrightarrow>
        update_text_file w log u pn fn new_date =
           (if lower fn \<noteq> lower (desired_file_name pn)
            then
              (returned
                 (fst (send w (log2 @ [Sent (POST (move_url u pn fn (desired_file_name pn)) None)])
                         (PUT (file_value_url u pn (desired_file_name pn))
                              (join_with [NL] updated_lines)))),
               log2 @ [Sent (POST (move_url u pn fn (desired_file_name pn)) None),
                       Sent (PUT (file_value_url u pn (desired_file_name pn))
                                 (join_with [NL] updated_lines))])
            else
              (returned
                 (fst (send w log2 (PUT (file_value_url u pn fn) (join_with [NL] updated_lines)))),
               log2 @ [Sent (PUT (file_value_url u pn fn) (join_with [NL] updated_lines))]))"
  proof (intro allI impI)
    fix log1 content log2 d updated_lines n
    assume h: "download_original_file w log u pn fn = (True, log1)
        \<and> get_text_file_content w log1 u pn fn = (Some content, log2)
        \<and> to_datetime new_date = Some d
        \<and> patch_loop (strftime_mdY d) (split_on NL content) [] 0 = (updated_lines, n)
        \<and> n \<noteq> 0"
    then have h1: "download_original_file w log u pn fn = (True, log1)"
      and h2: "get_text_file_content w log1 u pn fn = (Some content, log2)"
      and h3: "to_datetime new_date = Some d"
      and h4: "patch_loop (strftime_mdY d) (split_on NL content) [] 0 = (updated_lines, n)"
      and h5: "n \<noteq> 0"
      by blast+
    show "update_text_file w log u pn fn new_date =
           (if lower fn \<noteq> lower (desired_file_name pn)
            then
              (returned
                 (fst (send w (log2 @ [Sent (POST (move_url u pn fn (desired_file_name pn)) None)])
                         (PUT (file_value_url u pn (desired_file_name pn))
                              (join_with [NL] updated_lines)))),
               log2 @ [Sent (POST (move_url u pn fn (desired_file_name pn)) None),
                       Sent (PUT (file_value_url u pn (desired_file_name pn))
                                 (join_with [NL] updated_lines))])
            else
              (returned
                 (fst (send w log2 (PUT (file_value_url u pn fn) (join_with [NL] updated_lines)))),
               log2 @ [Sent (PUT (file_value_url u pn fn) (join_with [NL] updated_lines))]))"
      using h1 h2 h3 h4 h5 by (rule update_text_file_write_stage)
  qed
qed

theorem rename_iff_name_differs_then_write_to_desired_name_witness:
  "lower ''old.txt'' \<noteq> lower (desired_file_name ''101'')
   \<and> fst (rename_sharepoint_file world_rename_refused
            [Sent (GET (file_value_url example_updater ''101'' ''old.txt'')),
             Local (MakeDirs [''backups'', ''Point_101'']),
             Local (WriteText [''backups'', ''Point_101'', ''original_old_20240615_010203.txt'']
                      example_history),
             Sent (GET (file_value_url example_updater ''101'' ''old.txt''))]
            example_updater ''101'' ''old.txt'' (desired_file_name ''101'')) = False
   \<and> update_text_file world_rename_refused [] example_updater ''101'' ''old.txt''
         (IsoStr ''2024-06-15T00:00:00Z'')
     = (True,
        [Sent (GET (file_value_url example_updater ''101'' ''old.txt'')),
         Local (MakeDirs [''backups'', ''Point_101'']),
         Local (WriteText [''backups'', ''Point_101'', ''original_old_20240615_010203.txt'']
                  example_history),
         Sent (GET (file_value_url example_updater ''101'' ''old.txt'')),
         Sent (POST (move_url example_updater ''101'' ''old.txt'' ''Point 101.txt'') None),
         Sent (PUT (file_value_url example_updater ''101'' ''Point 101.txt'')
                 (''head'' @ [NL] @ ''06/15/2024'' @ [TAB, TAB] @ ''CMS'' @ [TAB] @ ''note''))])"
proof -
  let ?log1 = "[Sent (GET (file_value_url example_updater ''101'' ''old.txt'')),
        Local (MakeDirs [''backups'', ''Point_101'']),
        Local (WriteText [''backups'', ''Point_101'', ''original_old_20240615_010203.txt'']
                 example_history)]"
  let ?log2 = "?log1 @ [Sent (GET (file_value_url example_updater ''101'' ''old.txt''))]"
  let ?d = "\<lparr>year = 2024, month = 6, day = 15, hour = 0, minute = 0, second = 0\<rparr>"
  let ?lines = "[''head'', ''06/15/2024'' @ [TAB, TAB] @ ''CMS'' @ [TAB] @ ''note'']"
  have differs: "lower ''old.txt'' \<noteq> lower (desired_file_name ''101'')"
    by code_simp
  have dl: "download_original_file world_rename_refused [] example_updater ''101'' ''old.txt''
            = (True, ?log1)"
    using example_backup_name
    by (simp add: download_original_file_def get_text_file_content_def send_def local_op_def
        world_rename_refused_def example_updater_def)
  have gc: "get_text_file_content world_rename_refused ?log1 example_updater ''101'' ''old.txt''
            = (Some example_history, ?log2)"
    by (simp add: get_text_file_content_def send_def world_rename_refused_def)
  have date: "to_datetime (IsoStr ''2024-06-15T00:00:00Z'') = Some ?d"
    by code_simp
  have nd: "strftime_mdY ?d = ''06/15/2024''"
    by (simp add: strftime_mdY_def pad2_def pad4_def digit_char_def)
  have pl: "patch_loop (strftime_mdY ?d) (split_on NL example_history) [] 0 = (?lines, 1)"
    by (simp add: nd example_history_def NL_def TAB_def match_date_def match_date_cms_def
        is_digit_def is_space_def)
  have refused: "fst (rename_sharepoint_file world_rename_refused ?log2 example_updater
                        ''101'' ''old.txt'' (desired_file_name ''101'')) = False"
    by (simp add: rename_sharepoint_file_def send_def world_rename_refused_def)
  have "update_text_file world_rename_refused [] example_updater ''101'' ''old.txt''
          (IsoStr ''2024-06-15T00:00:00Z'')
        = (if lower ''old.txt'' \<noteq> lower (desired_file_name ''101'')
           then
             (returned
                (fst (send world_rename_refused
                        (?log2 @ [Sent (POST (move_url example_updater ''101'' ''old.txt''
                                                (desired_file_name ''101'')) None)])
                        (PUT (file_value_url example_updater ''101'' (desired_file_name ''101''))
                             (join_with [NL] ?lines)))),
              ?log2 @ [Sent (POST (move_url example_updater ''101'' ''old.txt''
                                     (desired_file_name ''101'')) None),
                       Sent (PUT (file_value_url example_updater ''101'' (desired_file_name ''101''))
                                 (join_with [NL] ?lines))])
           else
             (returned
                (fst (send world_rename_refused ?log2
                        (PUT (file_value_url example_updater ''101'' ''old.txt'')
                             (join_with [NL] ?lines)))),
              ?log2 @ [Sent (PUT (file_value_url example_updater ''101'' ''old.txt'')
                               (join_with [NL] ?lines))]))"
    using rename_iff_name_differs_then_write_to_desired_name
            [of world_rename_refused "[]" example_updater "''101''" "''old.txt''"
                "IsoStr ''2024-06-15T00:00:00Z''", THEN conjunct2, rule_format,
             of ?log1 example_history ?log2 ?d ?lines 1]
          dl gc date pl
    by simp
  then have "update_text_file world_rename_refused [] example_updater ''101'' ''old.txt''
          (IsoStr ''2024-06-15T00:00:00Z'')
        = (True,
           ?log2 @ [Sent (POST (move_url example_updater ''101'' ''old.txt''
                                  (desired_file_name ''101'')) None),
                    Sent (PUT (file_value_url example_updater ''101'' (desired_file_name ''101''))
                              (join_with [NL] ?lines))])"
    using differs by (simp add: send_def returned_def world_rename_refused_def)
  then show ?thesis
    using differs refused by (simp add: desired_file_name_def)
qed

text \<open>
  The claim as worded fails: a file named \<^verbatim>\<open>old.txt\<close> does not carry the desired
  name, yet no move is requested for it when the update stops before its write, here
  for want of a line to patch.
\<close>

theorem rename_not_attempted_counterexample:
  "lower ''old.txt'' \<noteq> lower (desired_file_name ''101'')
   \<and> update_text_file world_plain_text [] example_updater ''101'' ''old.txt''
         (IsoStr ''2024-06-15'')
     = (False,
        [Sent (GET (file_value_url example_updater ''101'' ''old.txt'')),
         Local (MakeDirs [''backups'', ''Point_101'']),
         Local (WriteText [''backups'', ''Point_101'', ''original_old_20240615_010203.txt'']
                  example_plain),
         Sent (GET (file_value_url example_updater ''101'' ''old.txt''))])"
proof -
  have "lower ''old.txt'' \<noteq> lower (desired_file_name ''101'')"
    by code_simp
  with example_plain_run show ?thesis by simp
qed

section \<open>The date-range query\<close>

lemma digit_char_not_l: "CHR ''l'' \<noteq> digit_char n"
  using is_digit_digit_char [of n] by (auto simp: is_digit_def)

lemma strftime_iso_no_l: "CHR ''l'' \<notin> set (strftime_iso d)"
  by (simp add: strftime_iso_def pad2_def pad4_def digit_char_not_l)

lemma date_filter_no_l: "CHR ''l'' \<notin> set (date_filter start_date None)"
  by (simp add: date_filter_def date_added_field_def APOS_def strftime_iso_no_l)

lemma hex_digit_not_l: "CHR ''l'' \<noteq> hex_digit n"
proof -
  have "hex_digit n \<in> set ''0123456789ABCDEF''"
    unfolding hex_digit_def by (rule nth_mem) simp
  then show ?thesis by auto
qed

lemma quote_char_no_l: "c \<noteq> CHR ''l'' \<Longrightarrow> CHR ''l'' \<notin> set (quote_char c)"
  by (simp add: quote_char_def percent_byte_def hex_digit_not_l Let_def)

lemma quote_no_l: "CHR ''l'' \<notin> set s \<Longrightarrow> CHR ''l'' \<notin> set (quote s)"
  by (induction s) (auto simp: quote_def quote_char_no_l)

lemma str_contains_set: "str_contains p s \<Longrightarrow> set p \<subseteq> set s"
proof (induction s)
  case Nil
  then show ?case by simp
next
  case (Cons c s)
  from Cons.prems have "prefix p (c # s) \<or> str_contains p s" by simp
  then show ?case
  proof
    assume "prefix p (c # s)"
    then show ?thesis by (rule set_mono_prefix)
  next
    assume "str_contains p s"
    with Cons.IH show ?thesis by auto
  qed
qed

lemma get_points_by_date_range_log:
  "snd (get_points_by_date_range w log u start_date end_date)
   = log @ [Sent (GET (points_api_url u (quote (date_filter start_date end_date))))]"
  by (simp add: get_points_by_date_range_def Let_def split_beta send_log)

text \<open>
  Claim C8.  With \<^verbatim>\<open>end_date=None\<close> the one request of \<^verbatim>\<open>get_points_by_date_range\<close>
  carries, as its \<^verbatim>\<open>$filter\<close>, the quoted text of a single lower bound
  \<^verbatim>\<open>Date_x0020_Added ge datetime'...'\<close> on the start date: there is no \<^verbatim>\<open>le\<close> clause
  in the filter, and no \<^verbatim>\<open>le\<close> at all in its quoted form.
\<close>

theorem open_ended_range_has_lower_bound_only:
  "snd (get_points_by_date_range w log u start_date None)
     = log @ [Sent (GET (points_api_url u (quote (date_filter start_date None))))]
   \<and> date_filter start_date None
       = date_added_field @ '' ge datetime'' @ [APOS] @ strftime_iso start_date @ [APOS]
   \<and> \<not> str_contains '' le '' (date_filter start_date None)
   \<and> \<not> str_contains ''le'' (quote (date_filter start_date None))"
proof -
  have a: "\<not> str_contains '' le '' (date_filter start_date None)"
    using str_contains_set [of "'' le ''" "date_filter start_date None"]
          date_filter_no_l [of start_date]
    by auto
  have b: "\<not> str_contains ''le'' (quote (date_filter start_date None))"
    using str_contains_set [of "''le''" "quote (date_filter start_date None)"]
          quote_no_l [OF date_filter_no_l [of start_date]]
    by auto
  show ?thesis
    using a b by (simp add: get_points_by_date_range_log) (simp add: date_filter_def)
qed

theorem open_ended_range_has_lower_bound_only_witness:
  "quote (date_filter \<lparr>year = 2024, month = 6, day = 15, hour = 0, minute = 0, second = 0\<rparr> None)
     = ''Date_x0020_Added%20ge%20datetime%272024-06-15T00%3A00%3A00Z%27''
   \<and> \<not> str_contains ''le''
         ''Date_x0020_Added%20ge%20datetime%272024-06-15T00%3A00%3A00Z%27''
   \<and> str_contains ''%20le%20''
         (quote (date_filter \<lparr>year = 2024, month = 6, day = 1, hour = 0, minute = 0, second = 0\<rparr>
                   (Some \<lparr>year = 2024, month = 6, day = 15, hour = 0, minute = 0, second = 0\<rparr>)))"
proof -
  let ?d = "\<lparr>year = 2024, month = 6, day = 15, hour = 0, minute = 0, second = 0\<rparr>"
  have q: "quote (date_filter ?d None)
           = ''Date_x0020_Added%20ge%20datetime%272024-06-15T00%3A00%3A00Z%27''"
    by code_simp
  have both: "str_contains ''%20le%20''
         (quote (date_filter \<lparr>year = 2024, month = 6, day = 1, hour = 0, minute = 0, second = 0\<rparr>
                   (Some ?d)))"
    by code_simp
  from open_ended_range_has_lower_bound_only [of world_two_points "[]" example_updater ?d]
  have "\<not> str_contains ''le'' (quote (date_filter ?d None))" by blast
  with q both show ?thesis by simp
qed

section \<open>\<^verbatim>\<open>process_multiple_points\<close> and its limit\<close>

lemma process_points_records_every_point:
  "process_points w log u ps res = (Returned res', log') \<Longrightarrow>
     (\<exists>oks. length oks = length ps
        \<and> successful res' = successful res
             @ map (\<lambda>p. (pt_id p, pt_point_number p)) (map fst (filter snd (zip ps oks)))
        \<and> failed res' = failed res
             @ map (\<lambda>p. (pt_id p, pt_point_number p))
                 (map fst (filter (\<lambda>x. \<not> snd x) (zip ps oks))))"
proof (induction ps arbitrary: log res)
  case Nil
  then show ?case by simp
next
  case (Cons p ps)
  obtain ok log1 where sp:
    "process_single_point w log u (pt_id p) (pt_point_number p) (pt_date_added p) = (ok, log1)"
    by (cases "process_single_point w log u (pt_id p) (pt_point_number p) (pt_date_added p)")
  let ?res1 = "if ok then res\<lparr>successful := successful res @ [(pt_id p, pt_point_number p)]\<rparr>
               else res\<lparr>failed := failed res @ [(pt_id p, pt_point_number p)]\<rparr>"
  let ?log2 = "log1 @ [Local (WriteResults (results_path u) ?res1)]"
  from Cons.prems sp have saved: "disk w log1 (WriteResults (results_path u) ?res1)"
    and rest: "process_points w ?log2 u ps ?res1 = (Returned res', log')"
    by (auto simp: local_op_def Let_def split: if_splits)
  from Cons.IH [OF rest] obtain oks where oks: "length oks = length ps"
    and s: "successful res' = successful ?res1
             @ map (\<lambda>p. (pt_id p, pt_point_number p)) (map fst (filter snd (zip ps oks)))"
    and f: "failed res' = failed ?res1
             @ map (\<lambda>p. (pt_id p, pt_point_number p))
                 (map fst (filter (\<lambda>x. \<not> snd x) (zip ps oks)))"
    by blast
  show ?case
    by (rule exI [of _ "ok # oks"]) (use oks s f in \<open>cases ok; simp\<close>)
qed

lemma process_points_total:
  assumes "process_points w log u ps res = (Returned res', log')"
  shows "length (successful res') + length (failed res')
           = length (successful res) + length (failed res) + length ps"
    and "set (successful res') \<union> set (failed res')
           = set (successful res) \<union> set (failed res)
             \<union> (\<lambda>p. (pt_id p, pt_point_number p)) ` set ps"
proof -
  from process_points_records_every_point [OF assms] obtain oks
    where oks: "length oks = length ps"
      and s: "successful res' = successful res
             @ map (\<lambda>p. (pt_id p, pt_point_number p)) (map fst (filter snd (zip ps oks)))"
      and f: "failed res' = failed res
             @ map (\<lambda>p. (pt_id p, pt_point_number p))
                 (map fst (filter (\<lambda>x. \<not> snd x) (zip ps oks)))"
    by blast
  have len: "length (filter snd (zip ps oks)) + length (filter (\<lambda>x. \<not> snd x) (zip ps oks))
             = length ps"
    using sum_length_filter_compl [of snd "zip ps oks"] oks by simp
  show "length (successful res') + length (failed res')
           = length (successful res) + length (failed res) + length ps"
    using s f len by simp
  have "fst ` {x \<in> set (zip ps oks). snd x} \<union> fst ` {x \<in> set (zip ps oks). \<not> snd x}
        = fst ` set (zip ps oks)"
    by auto
  also have "\<dots> = set ps"
    using oks by (metis map_fst_zip set_map)
  finally have cover: "fst ` {x \<in> set (zip ps oks). snd x}
        \<union> fst ` {x \<in> set (zip ps oks). \<not> snd x} = set ps" .
  show "set (successful res') \<union> set (failed res')
           = set (successful res) \<union> set (failed res)
             \<union> (\<lambda>p. (pt_id p, pt_point_number p)) ` set ps"
    unfolding s f cover [symmetric] by (auto simp: image_Un image_image)
qed

lemma example_run_zero: "fst (process_multiple_points world_two_points [] example_updater example_now None (Some 0))
       = Returned \<lparr>successful = [], failed = [(7, ''101''), (8, ''102'')]\<rparr>"
  by (simp add: process_multiple_points_def get_points_by_date_range_def send_def
      world_two_points_def example_rows_def item_point_number_def Let_def
      process_single_point_def get_text_file_name_def local_op_def logged_handler_def)

lemma example_run_one: "fst (process_multiple_points world_two_points [] example_updater example_now None (Some 1))
       = Returned \<lparr>successful = [], failed = [(7, ''101'')]\<rparr>"
  by (simp add: process_multiple_points_def get_points_by_date_range_def send_def
      world_two_points_def example_rows_def item_point_number_def Let_def slice_to_def
      process_single_point_def get_text_file_name_def local_op_def logged_handler_def)

text \<open>
  Claim C10.  A \<^verbatim>\<open>max_points\<close> of 0 is false in \<^verbatim>\<open>if max_points:\<close>, so the list is
  not cut: the run is the run with no limit, and when it returns, the query has returned
  its list and every point of that list is recorded once, as successful or as failed.
\<close>

theorem max_points_zero_is_no_limit:
  "process_multiple_points w log u start_date end_date (Some 0)
     = process_multiple_points w log u start_date end_date None
   \<and> (\<forall>res log'.
         process_multiple_points w log u start_date end_date (Some 0) = (Returned res, log')
         \<longrightarrow> (\<exists>points.
                fst (get_points_by_date_range w log u start_date end_date) = Returned points
              \<and> length (successful res) + length (failed res) = length points
              \<and> set (successful res) \<union> set (failed res)
                  = (\<lambda>p. (pt_id p, pt_point_number p)) ` set points))"
proof (intro conjI allI impI)
  show eq: "process_multiple_points w log u start_date end_date (Some 0)
     = process_multiple_points w log u start_date end_date None"
    by (simp add: process_multiple_points_def split: prod.splits result.splits)
  fix res log'
  assume run: "process_multiple_points w log u start_date end_date (Some 0) = (Returned res, log')"
  obtain queried log1
    where q: "get_points_by_date_range w log u start_date end_date = (queried, log1)"
    by (cases "get_points_by_date_range w log u start_date end_date")
  from run q obtain points where r: "queried = Returned points"
    by (cases queried) (simp_all add: process_multiple_points_def)
  have both: "length (successful res) + length (failed res) = length points
     \<and> set (successful res) \<union> set (failed res)
         = (\<lambda>p. (pt_id p, pt_point_number p)) ` set points"
  proof (cases "points = []")
    case True
    with run q r show ?thesis by (auto simp: process_multiple_points_def)
  next
    case False
    with run q r have "process_points w log1 u points \<lparr>successful = [], failed = []\<rparr>
                     = (Returned res, log')"
      by (simp add: process_multiple_points_def)
    from process_points_total [OF this] show ?thesis by simp
  qed
  show "\<exists>points.
          fst (get_points_by_date_range w log u start_date end_date) = Returned points
        \<and> length (successful res) + length (failed res) = length points
        \<and> set (successful res) \<union> set (failed res)
            = (\<lambda>p. (pt_id p, pt_point_number p)) ` set points"
    using both q r by (intro exI [of _ points]) simp
qed

theorem max_points_zero_is_no_limit_witness:
  "fst (process_multiple_points world_two_points [] example_updater example_now None None)
     = Returned \<lparr>successful = [], failed = [(7, ''101''), (8, ''102'')]\<rparr>
   \<and> fst (process_multiple_points world_two_points [] example_updater example_now None (Some 0))
     = Returned \<lparr>successful = [], failed = [(7, ''101''), (8, ''102'')]\<rparr>
   \<and> (\<exists>points.
         fst (get_points_by_date_range world_two_points [] example_updater example_now None)
           = Returned points
       \<and> length points = 2)
   \<and> fst (process_multiple_points world_two_points [] example_updater example_now None (Some 1))
     = Returned \<lparr>successful = [], failed = [(7, ''101'')]\<rparr>"
proof -
  let ?res = "\<lparr>successful = [], failed = [(7, ''101''), (8, ''102'')]\<rparr>"
  note T = max_points_zero_is_no_limit
             [of world_two_points "[]" example_updater example_now None]
  obtain log' where run:
    "process_multiple_points world_two_points [] example_updater example_now None (Some 0)
       = (Returned ?res, log')"
    using example_run_zero
    by (cases "process_multiple_points world_two_points [] example_updater example_now None
                 (Some 0)") simp
  have same: "fst (process_multiple_points world_two_points [] example_updater example_now
                     None None) = Returned ?res"
    using T [THEN conjunct1] example_run_zero by simp
  from T [THEN conjunct2, rule_format, OF run] obtain points
    where p: "fst (get_points_by_date_range world_two_points [] example_updater
                     example_now None) = Returned points"
      and n: "length (successful ?res) + length (failed ?res) = length points"
    by blast
  from n have "length points = 2" by simp
  with p have all: "\<exists>points.
         fst (get_points_by_date_range world_two_points [] example_updater example_now None)
           = Returned points
       \<and> length points = 2"
    by blast
  show ?thesis
    using same example_run_zero all example_run_one by (intro conjI)
qed

section \<open>\<^verbatim>\<open>update_point_history\<close>: a failed fetch and an absent file\<close>

lemma send_transport_error:
  "http w log r = Raised e \<Longrightarrow> send w log r = (Raised e, log @ [Sent r])"
  by (simp add: send_def)

lemma send_error_status:
  "http w log r = Returned resp \<Longrightarrow> 400 \<le> status_code resp \<Longrightarrow> status_code resp < 600
     \<Longrightarrow> send w log r = (Raised ResponseSet, log @ [Sent r])"
  by (simp add: send_def)

lemma send_answered:
  "http w log r = Returned resp \<Longrightarrow> \<not> (400 \<le> status_code resp \<and> status_code resp < 600)
     \<Longrightarrow> send w log r = (Returned resp, log @ [Sent r])"
  by (simp add: send_def)

lemma get_existing_content_listing_failed:
  assumes "send w log (GET (quoted_folder_url v pn)) = (Raised e, log1)"
  shows "get_existing_content w log v pn = (logged_handler e None, log1)"
  using assms by (simp add: get_existing_content_def)

lemma get_existing_content_fetch_failed:
  assumes "send w log (GET (quoted_folder_url v pn)) = (Returned resp, log1)"
    and "json resp = Results files" and "next_txt_file files = Returned (Some name)"
    and "send w log1 (GET (quoted_file_url v pn name)) = (Raised e, log2)"
  shows "get_existing_content w log v pn = (logged_handler e None, log2)"
  using assms by (simp add: get_existing_content_def)

lemma update_point_history_fetch_raised:
  assumes "get_monument_type w log v (obs_point_number obs) = (Returned found_type, log1)"
    and "get_existing_content w log1 v (obs_point_number obs) = (Raised e, log2)"
  shows "update_point_history w log v obs observer initials = (logged_handler e False, log2)"
  using assms by (simp add: update_point_history_def)

lemma update_point_history_creates:
  assumes "get_monument_type w log v (obs_point_number obs) = (Returned found_type, log1)"
    and "get_existing_content w log1 v (obs_point_number obs) = (Returned None, log2)"
  shows "snd (update_point_history w log v obs observer initials)
         = log2 @ [Sent (POST (create_url v (obs_point_number obs))
                          (Some (create_point_history_content v (now w log2)
                                   (obs\<lparr>monument_type := found_type\<rparr>) observer initials None)))]"
  using assms
  by (simp add: update_point_history_def send_def Let_def split: result.splits)

lemma example_txt_suffix: "suffix ''.txt'' (lower ''Point 101.txt'')"
  by code_simp

text \<open>
  Claim C9.  A failed fetch is taken for an absent file when the service answers with
  an error, not when the transport fails.  When the reply to the listing, or to the
  fetch of the listed text file, has an error status, \<^verbatim>\<open>raise_for_status\<close> raises an
  \<^verbatim>\<open>HTTPError\<close> that carries the reply: the handler of \<^verbatim>\<open>get_existing_content\<close> logs it and returns \<open>None\<close>, and
  \<^verbatim>\<open>update_point_history\<close> then sends the request that creates
  \<^verbatim>\<open>Point {point_number}.txt\<close> from the template, though a text file may be there.  When
  the request itself fails (no connection, a timeout), the exception's \<^verbatim>\<open>response\<close> is
  \<open>None\<close>: the handler raises \<^verbatim>\<open>AttributeError\<close> at \<^verbatim>\<open>e.response.status_code\<close>,
  \<^verbatim>\<open>get_existing_content\<close> does not return, and \<^verbatim>\<open>update_point_history\<close> returns
  \<open>False\<close> having sent nothing more: no file is created.
\<close>

theorem transport_error_on_fetch_is_not_taken_for_absent_file:
  assumes "get_monument_type w log v (obs_point_number obs) = (Returned found_type, log1)"
  shows
   "(http w log1 (GET (quoted_folder_url v (obs_point_number obs))) = Raised ResponseNone
       \<longrightarrow> get_existing_content w log1 v (obs_point_number obs)
             = (Raised NoResponseAttr,
                log1 @ [Sent (GET (quoted_folder_url v (obs_point_number obs)))])
           \<and> update_point_history w log v obs observer initials
             = (Returned False,
                log1 @ [Sent (GET (quoted_folder_url v (obs_point_number obs)))]))
    \<and> (\<forall>resp files name.
          http w log1 (GET (quoted_folder_url v (obs_point_number obs))) = Returned resp
          \<and> \<not> (400 \<le> status_code resp \<and> status_code resp < 600)
          \<and> json resp = Results files \<and> next_txt_file files = Returned (Some name)
          \<and> http w (log1 @ [Sent (GET (quoted_folder_url v (obs_point_number obs)))])
                (GET (quoted_file_url v (obs_point_number obs) name)) = Raised ResponseNone
          \<longrightarrow> get_existing_content w log1 v (obs_point_number obs)
                = (Raised NoResponseAttr,
                   log1 @ [Sent (GET (quoted_folder_url v (obs_point_number obs))),
                           Sent (GET (quoted_file_url v (obs_point_number obs) name))])
              \<and> update_point_history w log v obs observer initials
                = (Returned False,
                   log1 @ [Sent (GET (quoted_folder_url v (obs_point_number obs))),
                           Sent (GET (quoted_file_url v (obs_point_number obs) name))]))
    \<and> (\<forall>failed.
          http w log1 (GET (quoted_folder_url v (obs_point_number obs))) = Returned failed
          \<and> 400 \<le> status_code failed \<and> status_code failed < 600
          \<longrightarrow> get_existing_content w log1 v (obs_point_number obs)
                = (Returned None,
                   log1 @ [Sent (GET (quoted_folder_url v (obs_point_number obs)))])
              \<and> snd (update_point_history w log v obs observer initials)
                = log1 @ [Sent (GET (quoted_folder_url v (obs_point_number obs))),
                          Sent (POST (create_url v (obs_point_number obs))
                                  (Some (create_point_history_content v
                                           (now w (log1
                                              @ [Sent (GET (quoted_folder_url v
                                                              (obs_point_number obs)))]))
                                           (obs\<lparr>monument_type := found_type\<rparr>) observer initials
                                           None)))])
    \<and> (\<forall>resp files name failed.
          http w log1 (GET (quoted_folder_url v (obs_point_number obs))) = Returned resp
          \<and> \<not> (400 \<le> status_code resp \<and> status_code resp < 600)
          \<and> json resp = Results files \<and> next_txt_file files = Returned (Some name)
          \<and> http w (log1 @ [Sent (GET (quoted_folder_url v (obs_point_number obs)))])
                (GET (quoted_file_url v (obs_point_number obs) name)) = Returned failed
          \<and> 400 \<le> status_code failed \<and> status_code failed < 600
          \<longrightarrow> get_existing_content w log1 v (obs_point_number obs)
                = (Returned None,
                   log1 @ [Sent (GET (quoted_folder_url v (obs_point_number obs))),
                           Sent (GET (quoted_file_url v (obs_point_number obs) name))])
              \<and> snd (update_point_history w log v obs observer initials)
                = log1 @ [Sent (GET (quoted_folder_url v (obs_point_number obs))),
                          Sent (GET (quoted_file_url v (obs_point_number obs) name)),
                          Sent (POST (create_url v (obs_point_number obs))
                                  (Some (create_point_history_content v
                                           (now w (log1
                                              @ [Sent (GET (quoted_folder_url v
                                                              (obs_point_number obs))),
                                                 Sent (GET (quoted_file_url v
                                                              (obs_point_number obs) name))]))
                                           (obs\<lparr>monument_type := found_type\<rparr>) observer initials
                                           None)))])"
proof (intro conjI allI impI)
  let ?pn = "obs_point_number obs"
  let ?dir = "GET (quoted_folder_url v ?pn)"
  assume "http w log1 ?dir = Raised ResponseNone"
  then have "send w log1 ?dir = (Raised ResponseNone, log1 @ [Sent ?dir])"
    by (rule send_transport_error)
  then have g: "get_existing_content w log1 v ?pn = (Raised NoResponseAttr, log1 @ [Sent ?dir])"
    by (simp add: get_existing_content_listing_failed logged_handler_def)
  then show "get_existing_content w log1 v ?pn = (Raised NoResponseAttr, log1 @ [Sent ?dir])" .
  from update_point_history_fetch_raised [OF assms g]
  show "update_point_history w log v obs observer initials
        = (Returned False, log1 @ [Sent ?dir])"
    by (simp add: logged_handler_def)
next
  let ?pn = "obs_point_number obs"
  let ?dir = "GET (quoted_folder_url v ?pn)"
  fix resp files name
  let ?file = "GET (quoted_file_url v ?pn name)"
  assume a: "http w log1 ?dir = Returned resp
          \<and> \<not> (400 \<le> status_code resp \<and> status_code resp < 600)
          \<and> json resp = Results files \<and> next_txt_file files = Returned (Some name)
          \<and> http w (log1 @ [Sent ?dir]) ?file = Raised ResponseNone"
  then have s1: "send w log1 ?dir = (Returned resp, log1 @ [Sent ?dir])"
    by (simp add: send_answered)
  from a have s2: "send w (log1 @ [Sent ?dir]) ?file
                   = (Raised ResponseNone, log1 @ [Sent ?dir, Sent ?file])"
    by (simp add: send_transport_error)
  from a have j: "json resp = Results files" and n: "next_txt_file files = Returned (Some name)"
    by simp_all
  from get_existing_content_fetch_failed [OF s1 j n s2]
  have g: "get_existing_content w log1 v ?pn
           = (Raised NoResponseAttr, log1 @ [Sent ?dir, Sent ?file])"
    by (simp add: logged_handler_def)
  then show "get_existing_content w log1 v ?pn
             = (Raised NoResponseAttr, log1 @ [Sent ?dir, Sent ?file])" .
  from update_point_history_fetch_raised [OF assms g]
  show "update_point_history w log v obs observer initials
        = (Returned False, log1 @ [Sent ?dir, Sent ?file])"
    by (simp add: logged_handler_def)
next
  let ?pn = "obs_point_number obs"
  let ?dir = "GET (quoted_folder_url v ?pn)"
  fix failed
  assume "http w log1 ?dir = Returned failed
          \<and> 400 \<le> status_code failed \<and> status_code failed < 600"
  then have "send w log1 ?dir = (Raised ResponseSet, log1 @ [Sent ?dir])"
    by (simp add: send_error_status)
  then have g: "get_existing_content w log1 v ?pn = (Returned None, log1 @ [Sent ?dir])"
    by (simp add: get_existing_content_listing_failed logged_handler_def)
  then show "get_existing_content w log1 v ?pn = (Returned None, log1 @ [Sent ?dir])" .
  from update_point_history_creates [OF assms g]
  show "snd (update_point_history w log v obs observer initials)
        = log1 @ [Sent ?dir,
                  Sent (POST (create_url v ?pn)
                          (Some (create_point_history_content v (now w (log1 @ [Sent ?dir]))
                                   (obs\<lparr>monument_type := found_type\<rparr>) observer initials
                                   None)))]"
    by simp
next
  let ?pn = "obs_point_number obs"
  let ?dir = "GET (quoted_folder_url v ?pn)"
  fix resp files name failed
  let ?file = "GET (quoted_file_url v ?pn name)"
  assume a: "http w log1 ?dir = Returned resp
          \<and> \<not> (400 \<le> status_code resp \<and> status_code resp < 600)
          \<and> json resp = Results files \<and> next_txt_file files = Returned (Some name)
          \<and> http w (log1 @ [Sent ?dir]) ?file = Returned failed
          \<and> 400 \<le> status_code failed \<and> status_code failed < 600"
  then have s1: "send w log1 ?dir = (Returned resp, log1 @ [Sent ?dir])"
    by (simp add: send_answered)
  from a have s2: "send w (log1 @ [Sent ?dir]) ?file
                   = (Raised ResponseSet, log1 @ [Sent ?dir, Sent ?file])"
    by (simp add: send_error_status)
  from a have j: "json resp = Results files" and n: "next_txt_file files = Returned (Some name)"
    by simp_all
  from get_existing_content_fetch_failed [OF s1 j n s2]
  have g: "get_existing_content w log1 v ?pn = (Returned None, log1 @ [Sent ?dir, Sent ?file])"
    by (simp add: logged_handler_def)
  then show "get_existing_content w log1 v ?pn
             = (Returned None, log1 @ [Sent ?dir, Sent ?file])" .
  from update_point_history_creates [OF assms g]
  show "snd (update_point_history w log v obs observer initials)
        = log1 @ [Sent ?dir, Sent ?file,
                  Sent (POST (create_url v ?pn)
                          (Some (create_point_history_content v
                                   (now w (log1 @ [Sent ?dir, Sent ?file]))
                                   (obs\<lparr>monument_type := found_type\<rparr>) observer initials
                                   None)))]"
    by simp
qed

theorem transport_error_on_fetch_is_not_taken_for_absent_file_witness:
  "update_point_history world_listing_unreachable [] example_vrs example_obs ''Casey'' ''CMS''
     = (Returned False,
        [Sent (GET (monument_query_url example_vrs ''101'')),
         Sent (GET (quoted_folder_url example_vrs ''101''))])
   \<and> update_point_history world_fetch_unreachable [] example_vrs example_obs ''Casey'' ''CMS''
     = (Returned False,
        [Sent (GET (monument_query_url example_vrs ''101'')),
         Sent (GET (quoted_folder_url example_vrs ''101'')),
         Sent (GET (quoted_file_url example_vrs ''101'' ''Point 101.txt''))])
   \<and> snd (update_point_history world_listing_refused [] example_vrs example_obs ''Casey''
            ''CMS'')
     = [Sent (GET (monument_query_url example_vrs ''101'')),
        Sent (GET (quoted_folder_url example_vrs ''101'')),
        Sent (POST (create_url example_vrs ''101'')
                (Some (create_point_history_content example_vrs example_now example_obs
                         ''Casey'' ''CMS'' None)))]
   \<and> snd (update_point_history world_fetch_breaks [] example_vrs example_obs ''Casey'' ''CMS'')
     = [Sent (GET (monument_query_url example_vrs ''101'')),
        Sent (GET (quoted_folder_url example_vrs ''101'')),
        Sent (GET (quoted_file_url example_vrs ''101'' ''Point 101.txt'')),
        Sent (POST (create_url example_vrs ''101'')
                (Some (create_point_history_content example_vrs example_now example_obs
                         ''Casey'' ''CMS'' None)))]"
proof -
  let ?mon = "Sent (GET (monument_query_url example_vrs ''101''))"
  let ?dir = "Sent (GET (quoted_folder_url example_vrs ''101''))"
  let ?file = "Sent (GET (quoted_file_url example_vrs ''101'' ''Point 101.txt''))"
  let ?rows = "[\<lparr>ID = Some 7, Name = Str ''Point 101.txt'', FileLeafRef = Missing,
                  Title = Missing, Date_x0020_Added = Missing,
                  Mon_x0020_Description = Missing\<rparr>]"
  have pn: "obs_point_number example_obs = ''101''"
    and same: "example_obs\<lparr>monument_type := None\<rparr> = example_obs"
    by (simp_all add: example_obs_def)
  \<comment> \<open>the connection is lost before the listing\<close>
  have m1: "get_monument_type world_listing_unreachable [] example_vrs
              (obs_point_number example_obs) = (Returned None, [?mon])"
    by (simp add: pn get_monument_type_def send_def world_listing_unreachable_def)
  have e1: "http world_listing_unreachable [?mon]
              (GET (quoted_folder_url example_vrs (obs_point_number example_obs)))
            = Raised ResponseNone"
    by (simp add: world_listing_unreachable_def)
  have r1: "update_point_history world_listing_unreachable [] example_vrs example_obs
              ''Casey'' ''CMS'' = (Returned False, [?mon, ?dir])"
    using transport_error_on_fetch_is_not_taken_for_absent_file
            [OF m1, of "''Casey''" "''CMS''", THEN conjunct1, rule_format, OF e1, THEN conjunct2]
    by (simp add: pn)
  \<comment> \<open>the connection is lost before the fetch of the file\<close>
  have m2: "get_monument_type world_fetch_unreachable [] example_vrs
              (obs_point_number example_obs) = (Returned None, [?mon])"
    by (simp add: pn get_monument_type_def send_def world_fetch_unreachable_def
        example_listing_def)
  have e2: "http world_fetch_unreachable [?mon]
              (GET (quoted_folder_url example_vrs (obs_point_number example_obs)))
              = Returned example_listing
            \<and> \<not> (400 \<le> status_code example_listing \<and> status_code example_listing < 600)
            \<and> json example_listing = Results ?rows
            \<and> next_txt_file ?rows = Returned (Some ''Point 101.txt'')
            \<and> http world_fetch_unreachable
                 ([?mon] @ [Sent (GET (quoted_folder_url example_vrs
                                         (obs_point_number example_obs)))])
                 (GET (quoted_file_url example_vrs (obs_point_number example_obs)
                         ''Point 101.txt'')) = Raised ResponseNone"
    using example_txt_suffix by (simp add: world_fetch_unreachable_def example_listing_def)
  have r2: "update_point_history world_fetch_unreachable [] example_vrs example_obs
              ''Casey'' ''CMS'' = (Returned False, [?mon, ?dir, ?file])"
    using transport_error_on_fetch_is_not_taken_for_absent_file
            [OF m2, of "''Casey''" "''CMS''", THEN conjunct2, THEN conjunct1, rule_format,
             OF e2, THEN conjunct2]
    by (simp add: pn)
  \<comment> \<open>the service answers the listing with status 503\<close>
  have m4: "get_monument_type world_listing_refused [] example_vrs
              (obs_point_number example_obs) = (Returned None, [?mon])"
    by (simp add: pn get_monument_type_def send_def world_listing_refused_def)
  let ?refused = "\<lparr>status_code = 503, body_text = [], json = NotJson\<rparr>"
  have e4: "http world_listing_refused [?mon]
              (GET (quoted_folder_url example_vrs (obs_point_number example_obs)))
              = Returned ?refused
            \<and> 400 \<le> status_code ?refused \<and> status_code ?refused < 600"
    by (simp add: world_listing_refused_def)
  have r4: "snd (update_point_history world_listing_refused [] example_vrs example_obs
                   ''Casey'' ''CMS'')
            = [?mon, ?dir,
               Sent (POST (create_url example_vrs ''101'')
                      (Some (create_point_history_content example_vrs example_now example_obs
                               ''Casey'' ''CMS'' None)))]"
    using transport_error_on_fetch_is_not_taken_for_absent_file
            [OF m4, of "''Casey''" "''CMS''", THEN conjunct2, THEN conjunct2, THEN conjunct1,
             rule_format, OF e4, THEN conjunct2]
    by (simp add: pn same world_listing_refused_def [THEN arg_cong [of _ _ now]])
  \<comment> \<open>the service answers the fetch of the file with status 503\<close>
  have m3: "get_monument_type world_fetch_breaks [] example_vrs
              (obs_point_number example_obs) = (Returned None, [?mon])"
    by (simp add: pn get_monument_type_def send_def world_fetch_breaks_def example_listing_def)
  let ?failed = "\<lparr>status_code = 503, body_text = [], json = NotJson\<rparr>"
  have e3: "http world_fetch_breaks [?mon]
              (GET (quoted_folder_url example_vrs (obs_point_number example_obs)))
              = Returned example_listing
            \<and> \<not> (400 \<le> status_code example_listing \<and> status_code example_listing < 600)
            \<and> json example_listing = Results ?rows
            \<and> next_txt_file ?rows = Returned (Some ''Point 101.txt'')
            \<and> http world_fetch_breaks
                 ([?mon] @ [Sent (GET (quoted_folder_url example_vrs
                                         (obs_point_number example_obs)))])
                 (GET (quoted_file_url example_vrs (obs_point_number example_obs)
                         ''Point 101.txt'')) = Returned ?failed
            \<and> 400 \<le> status_code ?failed \<and> status_code ?failed < 600"
    using example_txt_suffix by (simp add: world_fetch_breaks_def example_listing_def)
  have r3: "snd (update_point_history world_fetch_breaks [] example_vrs example_obs
                   ''Casey'' ''CMS'')
            = [?mon, ?dir, ?file,
               Sent (POST (create_url example_vrs ''101'')
                      (Some (create_point_history_content example_vrs example_now example_obs
                               ''Casey'' ''CMS'' None)))]"
    using transport_error_on_fetch_is_not_taken_for_absent_file
            [OF m3, of "''Casey''" "''CMS''", THEN conjunct2, THEN conjunct2, THEN conjunct2,
             rule_format, OF e3, THEN conjunct2]
    by (simp add: pn same world_fetch_breaks_def [THEN arg_cong [of _ _ now]])
  show ?thesis
    using r1 r2 r4 r3 by (intro conjI)
qed

section \<open>The content composer\<close>

lemma split_on_not_Nil: "split_on sep s \<noteq> []"
  by (induction s) (auto split: list.splits)

lemma split_on_append_sep:
  "split_on sep (a @ sep # b) = split_on sep a @ split_on sep b"
proof (induction a)
  case Nil
  show ?case by simp
next
  case (Cons c a)
  obtain part parts where "split_on sep a = part # parts"
    using split_on_not_Nil [of sep a] by (cases "split_on sep a") auto
  with Cons show ?case by simp
qed

lemma split_on_no_sep: "sep \<notin> set s \<Longrightarrow> split_on sep s = [s]"
  by (induction s) auto

lemma line_contains:
  assumes "NL \<notin> set p"
  shows "\<exists>l\<in>set (split_on NL (a @ p @ b)). str_contains p l"
proof (induction a)
  case Nil
  have "\<exists>r rs. split_on NL (p @ b) = (p @ r) # rs"
    using assms
  proof (induction p)
    case Nil
    show ?case using split_on_not_Nil [of NL b] by (cases "split_on NL b") auto
  next
    case (Cons c p)
    then obtain r rs where "split_on NL (p @ b) = (p @ r) # rs" by auto
    moreover from Cons.prems have "c \<noteq> NL" by auto
    ultimately show ?case by simp
  qed
  then obtain r rs where "split_on NL (p @ b) = (p @ r) # rs" by blast
  moreover have "str_contains p ([] @ p @ r)" by (rule str_contains_append)
  ultimately show ?case by simp
next
  case (Cons c a)
  then obtain l where l: "l \<in> set (split_on NL (a @ p @ b))" and c: "str_contains p l"
    by blast
  show ?case
  proof (cases "c = NL")
    case True
    with l c show ?thesis by auto
  next
    case False
    obtain part parts where s: "split_on NL (a @ p @ b) = part # parts"
      using split_on_not_Nil [of NL "a @ p @ b"] by (cases "split_on NL (a @ p @ b)") auto
    from l s have "l = part \<or> l \<in> set parts" by simp
    then show ?thesis
    proof
      assume "l = part"
      with c have "str_contains p (c # part)" by simp
      with False s show ?thesis by simp
    next
      assume "l \<in> set parts"
      with c False s show ?thesis by auto
    qed
  qed
qed

lemma digit_char_cases: "digit_char n \<in> set ''0123456789''"
  using is_digit_digit_char [of n] by (simp add: is_digit_def)

lemma digit_char_not_NL: "NL \<noteq> digit_char n"
  using digit_char_cases [of n] by (auto simp: NL_def)

lemma strftime_mdY_single_line: "NL \<notin> set (strftime_mdY d)"
  using digit_char_not_NL
  by (simp add: strftime_mdY_def pad2_def pad4_def) (simp add: NL_def)

lemma strftime_mdY_head: "\<exists>c cs. strftime_mdY d = c # cs \<and> c \<noteq> CHR ''(''"
  using digit_char_cases [of "month d div 10"]
  by (auto simp: strftime_mdY_def pad2_def)

lemma count_header_lines_append:
  "count_header_lines (a @ NL # b) = count_header_lines a + count_header_lines b"
  by (simp add: count_header_lines_def split_on_append_sep)

lemma count_header_lines_line:
  "NL \<notin> set l \<Longrightarrow> count_header_lines l = (if l = column_header_line then 1 else 0)"
  by (simp add: count_header_lines_def split_on_no_sep)

lemma column_header_single_line: "NL \<notin> set column_header_line"
  by (simp add: column_header_line_def NL_def TAB_def)

lemma column_header_head: "\<exists>cs. column_header_line = CHR ''('' # cs"
  by (simp add: column_header_line_def)

lemma not_header_by_head:
  assumes "l = c # cs" and "c \<noteq> CHR ''(''"
  shows "l \<noteq> column_header_line"
proof
  assume "l = column_header_line"
  with assms(1) have a: "column_header_line = c # cs" by simp
  from column_header_head obtain cs' where b: "column_header_line = CHR ''('' # cs'" by blast
  from a b have "c # cs = CHR ''('' # cs'" by (rule trans [OF sym])
  with assms(2) show False by simp
qed

lemma count_header_lines_other:
  "NL \<notin> set l \<Longrightarrow> l \<noteq> column_header_line \<Longrightarrow> count_header_lines l = 0"
  by (simp add: count_header_lines_line)

lemma count_header_lines_empty: "count_header_lines [] = 0"
  by (simp add: count_header_lines_def column_header_line_def)

lemma count_header_lines_itself: "count_header_lines column_header_line = 1"
  by (simp add: count_header_lines_line column_header_single_line)

lemma count_header_lines_header_block:
  assumes "NL \<notin> set point_number"
  shows "count_header_lines (header_block point_number) = 1"
proof -
  have t: "NL \<notin> set (title_line point_number)"
    using assms by (simp add: title_line_def NL_def)
  have tn: "title_line point_number \<noteq> column_header_line"
    by (rule not_header_by_head [of _ "CHR '' ''"]) (simp_all add: title_line_def)
  have s: "NL \<notin> set separator_line"
    by (simp add: separator_line_def NL_def)
  have "separator_line = CHR ''-'' # replicate 88 (CHR ''-'')"
    by (simp add: separator_line_def numeral_eq_Suc)
  then have sn: "separator_line \<noteq> column_header_line"
    by (rule not_header_by_head) simp
  have "header_block point_number
        = [] @ NL # (title_line point_number @ NL # ([] @ NL # (column_header_line @ NL
            # (separator_line @ NL # []))))"
    by (simp add: header_block_def)
  then have "count_header_lines (header_block point_number) = 0 + (0 + (0 + (1 + (0 + 0))))"
    by (simp only: count_header_lines_append count_header_lines_empty
        count_header_lines_itself count_header_lines_other [OF t tn]
        count_header_lines_other [OF s sn])
  then show ?thesis by simp
qed

lemma count_header_lines_new_entry:
  assumes "fields_single_line v obs observer initials"
  shows "count_header_lines (x @ new_entry v today obs observer initials) = count_header_lines x"
proof -
  let ?permit = "case monument_permit v of
                   Some permit \<Rightarrow> if permit \<noteq> [] then permit @ '' '' else []
                 | None \<Rightarrow> []"
  let ?mtt = "case monument_type obs of
                Some m \<Rightarrow> if m \<noteq> [] then '' ('' @ m @ '')'' else []
              | None \<Rightarrow> []"
  let ?l1 = "strftime_mdY today @ [TAB] @ initials @ [TAB] @ ''This monument'' @ ?mtt
             @ '' was observed with VRS ('' @ document_num obs @ '') using ''
             @ control_used obs @ '' and Geoid18''"
  let ?l2 = "[TAB, TAB, TAB] @ ''as part of WO '' @ work_order obs
             @ ''. The purpose of this work order was to facilitate '' @ ?permit"
  let ?l3 = "[TAB, TAB, TAB] @ ''Section '' @ obs_section obs @ '', '' @ township_range obs
             @ ''. Monument observed by '' @ observer @ '' on '' @ date_observed obs @ ''.''"
  have shape: "x @ new_entry v today obs observer initials
        = x @ NL # ([] @ NL # (?l1 @ NL # (?l2 @ NL # (?l3 @ NL # ([] @ NL # [])))))"
    by (simp add: new_entry_def Let_def)
  have permit: "NL \<notin> set ?permit" and mtt: "NL \<notin> set ?mtt"
    using assms
    by (auto simp: fields_single_line_def single_line_def NL_def split: option.splits)
  have s1: "NL \<notin> set ?l1" and s2: "NL \<notin> set ?l2" and s3: "NL \<notin> set ?l3"
    using assms permit mtt strftime_mdY_single_line [of today]
    by (simp_all add: fields_single_line_def single_line_def)
       (simp_all add: NL_def TAB_def)
  obtain c cs where "strftime_mdY today = c # cs" "c \<noteq> CHR ''(''"
    using strftime_mdY_head [of today] by blast
  then have n1: "?l1 \<noteq> column_header_line"
    by (intro not_header_by_head [of _ c]) simp_all
  have n2: "?l2 \<noteq> column_header_line" and n3: "?l3 \<noteq> column_header_line"
    by (rule not_header_by_head [of _ TAB], simp, simp add: TAB_def)+
  have "count_header_lines (x @ new_entry v today obs observer initials)
        = count_header_lines x + (0 + (0 + (0 + (0 + (0 + 0)))))"
    by (simp only: shape count_header_lines_append count_header_lines_empty
        count_header_lines_other [OF s1 n1] count_header_lines_other [OF s2 n2]
        count_header_lines_other [OF s3 n3])
  then show ?thesis by simp
qed

lemma create_fresh:
  "create_point_history_content v today obs observer initials None
   = header_block (obs_point_number obs) @ new_entry v today obs observer initials"
  "create_point_history_content v today obs observer initials (Some [])
   = header_block (obs_point_number obs) @ new_entry v today obs observer initials"
  by (simp_all add: create_point_history_content_def header_block_def title_line_def
      column_header_line_def separator_line_def Let_def)

lemma create_append:
  "existing \<noteq> [] \<Longrightarrow>
     create_point_history_content v today obs observer initials (Some existing)
     = rstrip existing @ new_entry v today obs observer initials"
  by (simp add: create_point_history_content_def Let_def)

lemma example_fields: "fields_single_line example_vrs example_obs ''Casey'' ''CMS''"
  by (simp add: fields_single_line_def single_line_def example_vrs_def example_obs_def NL_def)

lemma example_rstrip: "rstrip example_existing = column_header_line @ [NL] @ ''old entry''"
  by (simp add: rstrip_def example_existing_def column_header_line_def is_space_def
      NL_def TAB_def)

lemma new_entry_lines:
  "new_entry v today obs observer initials
   = [NL, NL] @ join_with [NL] (formatted_entry_lines v today obs observer initials) @ [NL, NL]"
  by (simp add: new_entry_def formatted_entry_lines_def Let_def)

lemma formatted_entry_lines_single:
  assumes "fields_single_line v obs observer initials"
  shows "\<forall>l\<in>set (formatted_entry_lines v today obs observer initials). NL \<notin> set l"
proof -
  let ?permit = "case monument_permit v of
                   Some permit \<Rightarrow> if permit \<noteq> [] then permit @ '' '' else []
                 | None \<Rightarrow> []"
  let ?mtt = "case monument_type obs of
                Some m \<Rightarrow> if m \<noteq> [] then '' ('' @ m @ '')'' else []
              | None \<Rightarrow> []"
  have permit: "NL \<notin> set ?permit" and mtt: "NL \<notin> set ?mtt"
    using assms
    by (auto simp: fields_single_line_def single_line_def NL_def split: option.splits)
  show ?thesis
    using assms permit mtt strftime_mdY_single_line [of today]
    by (simp add: formatted_entry_lines_def fields_single_line_def single_line_def)
       (simp add: NL_def TAB_def)
qed

lemma split_on_entry:
  assumes "fields_single_line v obs observer initials"
  shows "split_on NL (x @ new_entry v today obs observer initials)
         = split_on NL x @ [[]] @ formatted_entry_lines v today obs observer initials @ [[], []]"
proof -
  obtain l1 l2 l3 where ls: "formatted_entry_lines v today obs observer initials = [l1, l2, l3]"
    by (simp add: formatted_entry_lines_def)
  from formatted_entry_lines_single [OF assms, of today] ls
  have s: "NL \<notin> set l1" "NL \<notin> set l2" "NL \<notin> set l3" by simp_all
  have shape: "x @ new_entry v today obs observer initials
        = x @ NL # ([] @ NL # (l1 @ NL # (l2 @ NL # (l3 @ NL # ([] @ NL # [])))))"
    by (simp add: new_entry_lines ls)
  have "split_on NL (x @ new_entry v today obs observer initials)
        = split_on NL x @ ([[]] @ ([l1] @ ([l2] @ ([l3] @ ([[]] @ [[]])))))"
    by (simp only: shape split_on_append_sep split_on_no_sep [OF s(1)] split_on_no_sep [OF s(2)]
        split_on_no_sep [OF s(3)] split_on.simps(1))
  then show ?thesis by (simp add: ls)
qed

lemma split_on_header_block:
  assumes "NL \<notin> set point_number"
  shows "split_on NL (header_block point_number)
         = [[], title_line point_number, [], column_header_line, separator_line, []]"
proof -
  have t: "NL \<notin> set (title_line point_number)"
    using assms by (simp add: title_line_def NL_def)
  have s: "NL \<notin> set separator_line"
    by (simp add: separator_line_def NL_def)
  have "header_block point_number
        = [] @ NL # (title_line point_number @ NL # ([] @ NL # (column_header_line @ NL
            # (separator_line @ NL # []))))"
    by (simp add: header_block_def)
  then have "split_on NL (header_block point_number)
        = [[]] @ ([title_line point_number] @ ([[]] @ ([column_header_line]
            @ ([separator_line] @ [[]]))))"
    by (simp only: split_on_append_sep split_on_no_sep [OF t] split_on_no_sep [OF s]
        split_on_no_sep [OF column_header_single_line] split_on.simps(1))
  then show ?thesis by simp
qed

lemma example_today: "strftime_mdY example_now = ''06/15/2024''"
  by code_simp

lemma example_entry_lines:
  "formatted_entry_lines example_vrs example_now example_obs ''Casey'' ''CMS''
   = [''06/15/2024'' @ [TAB] @ ''CMS'' @ [TAB]
        @ ''This monument was observed with VRS (DOC-1) using VRS-Net and Geoid18'',
      [TAB, TAB, TAB]
        @ ''as part of WO WO-5. The purpose of this work order was to facilitate '',
      [TAB, TAB, TAB] @ ''Section 12, T1N R1E. Monument observed by Casey on 01/02/2024.'']"
  by (simp add: formatted_entry_lines_def example_today example_vrs_def example_obs_def)

lemma example_two_headers_text:
  "create_point_history_content example_vrs example_now example_two_headers ''Casey'' ''CMS''
     None
   = header_block ''101'' @ [NL, NL] @ ''06/15/2024'' @ [TAB] @ ''CMS'' @ [TAB]
     @ ''This monument (x'' @ header_block ''101''
     @ ''y) was observed with VRS (DOC-1) using VRS-Net and Geoid18''
     @ [NL, TAB, TAB, TAB]
     @ ''as part of WO WO-5. The purpose of this work order was to facilitate ''
     @ [NL, TAB, TAB, TAB]
     @ ''Section 12, T1N R1E. Monument observed by Casey on 01/02/2024.'' @ [NL, NL]"
  by (simp add: create_fresh new_entry_def example_two_headers_def example_obs_def
      example_vrs_def example_today header_block_def)

text \<open>
  Claim C2.  For every observation, observer and initials: with no existing content
  (\<open>None\<close> or the empty string) the composed text is the header block, a blank line and
  one formatted entry, its three lines between two line breaks before and two after; with
  a non-empty existing content it is \<^verbatim>\<open>rstrip(existing)\<close> followed by the same entry.
  When no field holds a line break, the lines of a fresh file are the header's, the
  entry's three and the blank ones, so the column-header line \<^verbatim>\<open>ACTION/REMARKS\<close> occurs
  exactly once; and the lines of an appended file are those of \<^verbatim>\<open>rstrip(existing)\<close>
  followed by the entry's, so appending adds no header line.  A field that holds line
  breaks can bring header lines of its own: the count is stated for single-line fields.
\<close>

theorem composer_one_header_one_entry_then_append:
  "((existing_content = None \<or> existing_content = Some []) \<longrightarrow>
      create_point_history_content v today obs observer initials existing_content
      = header_block (obs_point_number obs) @ [NL, NL]
        @ join_with [NL] (formatted_entry_lines v today obs observer initials) @ [NL, NL])
   \<and> (\<forall>existing. existing_content = Some existing \<and> existing \<noteq> [] \<longrightarrow>
      create_point_history_content v today obs observer initials existing_content
      = rstrip existing @ [NL, NL]
        @ join_with [NL] (formatted_entry_lines v today obs observer initials) @ [NL, NL])
   \<and> (fields_single_line v obs observer initials \<longrightarrow>
        ((existing_content = None \<or> existing_content = Some []) \<longrightarrow>
           split_on NL
             (create_point_history_content v today obs observer initials existing_content)
           = [[], title_line (obs_point_number obs), [], column_header_line, separator_line,
              [], []]
             @ formatted_entry_lines v today obs observer initials @ [[], []]
           \<and> count_header_lines
               (create_point_history_content v today obs observer initials existing_content)
             = 1)
        \<and> (\<forall>existing. existing_content = Some existing \<and> existing \<noteq> [] \<longrightarrow>
           split_on NL
             (create_point_history_content v today obs observer initials existing_content)
           = split_on NL (rstrip existing) @ [[]]
             @ formatted_entry_lines v today obs observer initials @ [[], []]
           \<and> count_header_lines
               (create_point_history_content v today obs observer initials existing_content)
             = count_header_lines (rstrip existing)))"
proof (intro conjI allI impI)
  assume "existing_content = None \<or> existing_content = Some []"
  then show "create_point_history_content v today obs observer initials existing_content
      = header_block (obs_point_number obs) @ [NL, NL]
        @ join_with [NL] (formatted_entry_lines v today obs observer initials) @ [NL, NL]"
    using create_fresh [of v today obs observer initials] by (auto simp: new_entry_lines)
next
  fix existing
  assume "existing_content = Some existing \<and> existing \<noteq> []"
  then show "create_point_history_content v today obs observer initials existing_content
      = rstrip existing @ [NL, NL]
        @ join_with [NL] (formatted_entry_lines v today obs observer initials) @ [NL, NL]"
    by (simp add: create_append new_entry_lines)
next
  assume f: "fields_single_line v obs observer initials"
    and "existing_content = None \<or> existing_content = Some []"
  then have c: "create_point_history_content v today obs observer initials existing_content
      = header_block (obs_point_number obs) @ new_entry v today obs observer initials"
    using create_fresh [of v today obs observer initials] by auto
  have p: "NL \<notin> set (obs_point_number obs)"
    using f by (simp add: fields_single_line_def single_line_def)
  show "split_on NL
          (create_point_history_content v today obs observer initials existing_content)
        = [[], title_line (obs_point_number obs), [], column_header_line, separator_line,
           [], []]
          @ formatted_entry_lines v today obs observer initials @ [[], []]"
    by (simp add: c split_on_entry [OF f] split_on_header_block [OF p])
  show "count_header_lines
             (create_point_history_content v today obs observer initials existing_content) = 1"
    using f p c by (simp add: count_header_lines_new_entry count_header_lines_header_block)
next
  fix existing
  assume f: "fields_single_line v obs observer initials"
    and e: "existing_content = Some existing \<and> existing \<noteq> []"
  then have c: "create_point_history_content v today obs observer initials existing_content
      = rstrip existing @ new_entry v today obs observer initials"
    by (simp add: create_append)
  show "split_on NL
          (create_point_history_content v today obs observer initials existing_content)
        = split_on NL (rstrip existing) @ [[]]
          @ formatted_entry_lines v today obs observer initials @ [[], []]"
    by (simp add: c split_on_entry [OF f])
  show "count_header_lines
             (create_point_history_content v today obs observer initials existing_content)
           = count_header_lines (rstrip existing)"
    using f c by (simp add: count_header_lines_new_entry)
qed

theorem composer_one_header_one_entry_then_append_witness:
  fixes fresh appended line1 line2 line3
  defines "fresh \<equiv>
    create_point_history_content example_vrs example_now example_obs ''Casey'' ''CMS'' None"
    and "appended \<equiv>
    create_point_history_content example_vrs example_now example_obs ''Casey'' ''CMS''
      (Some example_existing)"
    and "line1 \<equiv> ''06/15/2024'' @ [TAB] @ ''CMS'' @ [TAB]
           @ ''This monument was observed with VRS (DOC-1) using VRS-Net and Geoid18''"
    and "line2 \<equiv> [TAB, TAB, TAB]
           @ ''as part of WO WO-5. The purpose of this work order was to facilitate ''"
    and "line3 \<equiv> [TAB, TAB, TAB]
           @ ''Section 12, T1N R1E. Monument observed by Casey on 01/02/2024.''"
  shows
   "fresh = [NL] @ ''    POINT HISTORY FILE: for point 101'' @ [NL, NL]
            @ ''(mm/dd/yyyy) '' @ [TAB] @ ''(initials)'' @ [TAB, TAB] @ ''ACTION/REMARKS'' @ [NL]
            @ replicate 89 (CHR ''-'') @ [NL]
            @ [NL, NL] @ line1 @ [NL] @ line2 @ [NL] @ line3 @ [NL, NL]
    \<and> split_on NL fresh
      = [[], ''    POINT HISTORY FILE: for point 101'', [],
         ''(mm/dd/yyyy) '' @ [TAB] @ ''(initials)'' @ [TAB, TAB] @ ''ACTION/REMARKS'',
         replicate 89 (CHR ''-''), [], [], line1, line2, line3, [], []]
    \<and> count_header_lines fresh = 1
    \<and> appended
      = ''(mm/dd/yyyy) '' @ [TAB] @ ''(initials)'' @ [TAB, TAB] @ ''ACTION/REMARKS'' @ [NL]
        @ ''old entry''
        @ [NL, NL] @ line1 @ [NL] @ line2 @ [NL] @ line3 @ [NL, NL]
    \<and> split_on NL appended
      = [''(mm/dd/yyyy) '' @ [TAB] @ ''(initials)'' @ [TAB, TAB] @ ''ACTION/REMARKS'',
         ''old entry'', [], line1, line2, line3, [], []]
    \<and> count_header_lines appended = 1"
proof -
  have pn: "obs_point_number example_obs = ''101''" by (simp add: example_obs_def)
  have ne: "example_existing \<noteq> []" by (simp add: example_existing_def column_header_line_def)
  have lines: "formatted_entry_lines example_vrs example_now example_obs ''Casey'' ''CMS''
               = [line1, line2, line3]"
    by (simp add: example_entry_lines line1_def line2_def line3_def)
  note once = composer_one_header_one_entry_then_append
                [of None example_vrs example_now example_obs "''Casey''" "''CMS''"]
  note again = composer_one_header_one_entry_then_append
                 [of "Some example_existing" example_vrs example_now example_obs
                     "''Casey''" "''CMS''"]
  have a: "fresh = [NL] @ ''    POINT HISTORY FILE: for point 101'' @ [NL, NL]
            @ ''(mm/dd/yyyy) '' @ [TAB] @ ''(initials)'' @ [TAB, TAB] @ ''ACTION/REMARKS'' @ [NL]
            @ replicate 89 (CHR ''-'') @ [NL]
            @ [NL, NL] @ line1 @ [NL] @ line2 @ [NL] @ line3 @ [NL, NL]"
    using once [THEN conjunct1]
    by (simp add: fresh_def pn lines header_block_def title_line_def column_header_line_def
        separator_line_def)
  have b: "split_on NL fresh
      = [[], ''    POINT HISTORY FILE: for point 101'', [],
         ''(mm/dd/yyyy) '' @ [TAB] @ ''(initials)'' @ [TAB, TAB] @ ''ACTION/REMARKS'',
         replicate 89 (CHR ''-''), [], [], line1, line2, line3, [], []]"
    using once [THEN conjunct2, THEN conjunct2, rule_format, OF example_fields, THEN conjunct1]
    by (simp add: fresh_def pn lines title_line_def column_header_line_def separator_line_def)
  have c: "count_header_lines fresh = 1"
    using once [THEN conjunct2, THEN conjunct2, rule_format, OF example_fields, THEN conjunct1]
    by (simp add: fresh_def)
  have "split_on NL (rstrip example_existing) = [column_header_line, ''old entry'']"
    using split_on_append_sep [of NL column_header_line "''old entry''"]
          split_on_no_sep [OF column_header_single_line]
    by (simp add: example_rstrip) (simp add: NL_def)
  then have sp: "split_on NL (rstrip example_existing)
       = [''(mm/dd/yyyy) '' @ [TAB] @ ''(initials)'' @ [TAB, TAB] @ ''ACTION/REMARKS'',
          ''old entry'']"
    by (simp add: column_header_line_def)
  have d: "appended
      = ''(mm/dd/yyyy) '' @ [TAB] @ ''(initials)'' @ [TAB, TAB] @ ''ACTION/REMARKS'' @ [NL]
        @ ''old entry''
        @ [NL, NL] @ line1 @ [NL] @ line2 @ [NL] @ line3 @ [NL, NL]"
    using again [THEN conjunct2, THEN conjunct1] ne
    by (simp add: appended_def lines example_rstrip column_header_line_def)
  have e: "split_on NL appended
      = [''(mm/dd/yyyy) '' @ [TAB] @ ''(initials)'' @ [TAB, TAB] @ ''ACTION/REMARKS'',
         ''old entry'', [], line1, line2, line3, [], []]"
    using again [THEN conjunct2, THEN conjunct2, rule_format, OF example_fields,
                 THEN conjunct2, rule_format, of example_existing, THEN conjunct1] ne
    by (simp add: appended_def lines sp)
  have "count_header_lines (rstrip example_existing) = 1"
    using count_header_lines_append [of column_header_line "''old entry''"]
    by (simp add: example_rstrip count_header_lines_itself)
       (simp add: count_header_lines_other NL_def column_header_line_def)
  then have f: "count_header_lines appended = 1"
    using again [THEN conjunct2, THEN conjunct2, rule_format, OF example_fields,
                 THEN conjunct2, rule_format, of example_existing, THEN conjunct2] ne
    by (simp add: appended_def)
  from a b c d e f show ?thesis by (intro conjI)
qed

theorem composer_two_header_blocks_counterexample:
  "create_point_history_content example_vrs example_now example_two_headers ''Casey'' ''CMS''
     None
   = header_block ''101'' @ [NL, NL] @ ''06/15/2024'' @ [TAB] @ ''CMS'' @ [TAB]
     @ ''This monument (x'' @ header_block ''101''
     @ ''y) was observed with VRS (DOC-1) using VRS-Net and Geoid18''
     @ [NL, TAB, TAB, TAB]
     @ ''as part of WO WO-5. The purpose of this work order was to facilitate ''
     @ [NL, TAB, TAB, TAB]
     @ ''Section 12, T1N R1E. Monument observed by Casey on 01/02/2024.'' @ [NL, NL]
   \<and> count_header_lines
       (create_point_history_content example_vrs example_now example_two_headers ''Casey''
          ''CMS'' None) = 2"
proof -
  let ?a = "''06/15/2024'' @ [TAB] @ ''CMS'' @ [TAB] @ ''This monument (x''"
  let ?y = "''y) was observed with VRS (DOC-1) using VRS-Net and Geoid18''"
  let ?l2 = "[TAB, TAB, TAB]
             @ ''as part of WO WO-5. The purpose of this work order was to facilitate ''"
  let ?l3 = "[TAB, TAB, TAB]
             @ ''Section 12, T1N R1E. Monument observed by Casey on 01/02/2024.''"
  have t: "NL \<notin> set (title_line ''101'')" by (simp add: title_line_def NL_def)
  have tn: "title_line ''101'' \<noteq> column_header_line"
    by (rule not_header_by_head [of _ "CHR '' ''"]) (simp_all add: title_line_def)
  have s: "NL \<notin> set separator_line" by (simp add: separator_line_def NL_def)
  have "separator_line = CHR ''-'' # replicate 88 (CHR ''-'')"
    by (simp add: separator_line_def numeral_eq_Suc)
  then have sn: "separator_line \<noteq> column_header_line"
    by (rule not_header_by_head) simp
  have a: "NL \<notin> set ?a" "?a \<noteq> column_header_line"
    by (simp_all add: NL_def TAB_def column_header_line_def)
  have y: "NL \<notin> set ?y" "?y \<noteq> column_header_line"
    by (simp_all add: NL_def TAB_def column_header_line_def)
  have l2: "NL \<notin> set ?l2" "?l2 \<noteq> column_header_line"
    by (simp_all add: NL_def TAB_def column_header_line_def)
  have l3: "NL \<notin> set ?l3" "?l3 \<noteq> column_header_line"
    by (simp_all add: NL_def TAB_def column_header_line_def)
  have shape: "create_point_history_content example_vrs example_now example_two_headers
                 ''Casey'' ''CMS'' None
        = [] @ NL # (title_line ''101'' @ NL # ([] @ NL # (column_header_line @ NL #
           (separator_line @ NL # ([] @ NL # ([] @ NL # (?a @ NL # (title_line ''101'' @ NL #
           ([] @ NL # (column_header_line @ NL # (separator_line @ NL # (?y @ NL # (?l2 @ NL #
           (?l3 @ NL # ([] @ NL # [])))))))))))))))"
    by (simp add: example_two_headers_text header_block_def)
  have "count_header_lines
          (create_point_history_content example_vrs example_now example_two_headers ''Casey''
             ''CMS'' None)
        = 0 + (0 + (0 + (1 + (0 + (0 + (0 + (0 + (0 + (0 + (1 + (0 + (0 + (0 + (0 + (0 +
           (0))))))))))))))))"
    by (simp only: shape count_header_lines_append count_header_lines_empty
        count_header_lines_itself count_header_lines_other [OF t tn]
        count_header_lines_other [OF s sn] count_header_lines_other [OF a]
        count_header_lines_other [OF y] count_header_lines_other [OF l2]
        count_header_lines_other [OF l3])
  then show ?thesis by (simp add: example_two_headers_text)
qed

text \<open>
  Claim C7.  For the observation of scenario A (document DOC-1, work order WO-5, control
  VRS-Net, point 101, T1N R1E, section 12, observed 01/02/2024) with monument type
  Brass Cap and no existing content, whatever the site, the day, the observer and the
  initials: the composed content contains the sentence about the monument, and one of
  its lines contains \<^verbatim>\<open>as part of WO WO-5\<close>.
\<close>

theorem scenario_a_composed_content:
  fixes v today observer initials
  defines "content \<equiv>
    create_point_history_content v today
      \<lparr>document_num = ''DOC-1'', work_order = ''WO-5'', control_used = ''VRS-Net'',
       obs_point_number = ''101'', township_range = ''T1N R1E'', obs_section = ''12'',
       date_observed = ''01/02/2024'', monument_type = Some ''Brass Cap''\<rparr>
      observer initials None"
  shows "str_contains
           ''This monument (Brass Cap) was observed with VRS (DOC-1) using VRS-Net and Geoid18''
           content
         \<and> (\<exists>line\<in>set (split_on NL content). str_contains ''as part of WO WO-5'' line)"
proof -
  let ?n1 = "''This monument (Brass Cap) was observed with VRS (DOC-1) using VRS-Net and Geoid18''"
  let ?n2 = "''as part of WO WO-5''"
  let ?permit = "case monument_permit v of
                   Some permit \<Rightarrow> if permit \<noteq> [] then permit @ '' '' else []
                 | None \<Rightarrow> []"
  let ?a1 = "header_block ''101'' @ [NL, NL] @ strftime_mdY today @ [TAB] @ initials @ [TAB]"
  let ?b2 = "''. The purpose of this work order was to facilitate '' @ ?permit
             @ [NL, TAB, TAB, TAB] @ ''Section 12, T1N R1E. Monument observed by '' @ observer
             @ '' on 01/02/2024.'' @ [NL, NL]"
  have c1: "content = ?a1 @ ?n1 @ ([NL, TAB, TAB, TAB] @ ?n2 @ ?b2)"
    by (simp add: content_def create_point_history_content_def new_entry_def Let_def
        header_block_def title_line_def column_header_line_def separator_line_def)
  have c2: "content = (?a1 @ ?n1 @ [NL, TAB, TAB, TAB]) @ ?n2 @ ?b2"
    by (simp add: c1)
  have "str_contains ?n1 (?a1 @ ?n1 @ ([NL, TAB, TAB, TAB] @ ?n2 @ ?b2))"
    by (rule str_contains_append)
  then have first: "str_contains ?n1 content" by (simp only: c1)
  have "NL \<notin> set ?n2" by (simp add: NL_def)
  then have "\<exists>l\<in>set (split_on NL ((?a1 @ ?n1 @ [NL, TAB, TAB, TAB]) @ ?n2 @ ?b2)).
               str_contains ?n2 l"
    by (rule line_contains)
  then have second: "\<exists>l\<in>set (split_on NL content). str_contains ?n2 l" by (simp only: c2)
  from first second show ?thesis by blast
qed

theorem scenario_a_composed_content_witness:
  "str_contains
     ''This monument (Brass Cap) was observed with VRS (DOC-1) using VRS-Net and Geoid18''
     (create_point_history_content example_vrs example_now
        \<lparr>document_num = ''DOC-1'', work_order = ''WO-5'', control_used = ''VRS-Net'',
         obs_point_number = ''101'', township_range = ''T1N R1E'', obs_section = ''12'',
         date_observed = ''01/02/2024'', monument_type = Some ''Brass Cap''\<rparr>
        ''Casey'' ''CMS'' None)
   \<and> (\<exists>line\<in>set (split_on NL
          (create_point_history_content example_vrs example_now
             \<lparr>document_num = ''DOC-1'', work_order = ''WO-5'', control_used = ''VRS-Net'',
              obs_point_number = ''101'', township_range = ''T1N R1E'', obs_section = ''12'',
              date_observed = ''01/02/2024'', monument_type = Some ''Brass Cap''\<rparr>
             ''Casey'' ''CMS'' None)).
        str_contains ''as part of WO WO-5'' line)"
  by (rule scenario_a_composed_content)

section \<open>Path segments in the request URLs\<close>

text \<open>
  Claim C6 at the point number \<^verbatim>\<open>12 A\<close>.  The date updater puts the point number and
  the file names into its listing, fetch and move URLs as they are, with their spaces;
  the history updater quotes the folder path and the file path (\<^verbatim>\<open>%20\<close>), but not
  the name of the file it creates.
\<close>

theorem date_updater_embeds_raw_path_segments:
  "snd (get_text_file_name world_two_points [] example_updater ''12 A'')
     = [Sent (GET (''https://sp/sites/Survey/_api/web/GetFolderByServerRelativeUrl(''
                   @ [APOS] @ ''/sites/Survey/Points/12 A'' @ [APOS] @ '')/Files''))]
   \<and> snd (get_text_file_content world_two_points [] example_updater ''12 A'' ''Point 12 A.txt'')
     = [Sent (GET (''https://sp/sites/Survey/_api/web/GetFileByServerRelativeUrl(''
                   @ [APOS] @ ''/sites/Survey/Points/12 A/Point 12 A.txt'' @ [APOS]
                   @ '')/$value''))]
   \<and> snd (rename_sharepoint_file world_two_points [] example_updater ''12 A'' ''old 1.txt''
            ''Point 12 A.txt'')
     = [Sent (POST (''https://sp/sites/Survey/_api/web/GetFileByServerRelativeUrl(''
                    @ [APOS] @ ''/sites/Survey/Points/12 A/old 1.txt'' @ [APOS]
                    @ '')/MoveTo(newUrl='' @ [APOS] @ ''/sites/Survey/Points/12 A/Point 12 A.txt''
                    @ [APOS] @ '',flags=1)'') None)]
   \<and> quoted_folder_url example_vrs ''12 A''
     = ''https://sp/sites/Survey/_api/web/GetFolderByServerRelativeUrl(''
       @ [APOS] @ ''/sites/Survey/Points/12%20A'' @ [APOS] @ '')/Files''
   \<and> quoted_file_url example_vrs ''12 A'' ''Point 12 A.txt''
     = ''https://sp/sites/Survey/_api/web/GetFileByServerRelativeUrl(''
       @ [APOS] @ ''/sites/Survey/Points/12%20A/Point%2012%20A.txt'' @ [APOS] @ '')/$value''
   \<and> create_url example_vrs ''12 A''
     = ''https://sp/sites/Survey/_api/web/GetFolderByServerRelativeUrl(''
       @ [APOS] @ ''/sites/Survey/Points/12%20A'' @ [APOS]
       @ '')/Files/Add(url='' @ [APOS] @ ''Point 12 A.txt'' @ [APOS] @ '')''"
proof -
  have q1: "quote ''/sites/Survey/Points/12 A'' = ''/sites/Survey/Points/12%20A''"
    by code_simp
  have q2: "quote ''/sites/Survey/Points/12 A/Point 12 A.txt''
            = ''/sites/Survey/Points/12%20A/Point%2012%20A.txt''"
    by code_simp
  show ?thesis
    using q1 q2
    by (simp add: get_text_file_name_def get_text_file_content_def rename_sharepoint_file_def
        send_def folder_files_url_def file_value_url_def move_url_def quoted_folder_url_def
        quoted_folder_path_def quoted_file_url_def create_url_def example_updater_def
        example_vrs_def world_two_points_def example_rows_def Let_def)
qed

end
